theory Spec2Isabelle
  imports
    Main
    "HOL-Library.Sublist"
    "HOL-Library.Word"
    "HOL-Library.List_Lexorder"
    "HOL-Library.Char_ord"
begin

unbundle bit_operations_syntax

section \<open>Go values and library functions used by pkg/build/package.go\<close>

text \<open>
  A Go string is a sequence of bytes, compared bytewise and lexicographically; it is a
  \<^typ>\<open>string\<close> here, ordered by \<open>List_Lexorder\<close> over \<open>Char_ord\<close>. A Go \<open>error\<close>
  is the value of its message. The logger of a build receives lines at two levels.
\<close>

datatype error = Error string

fun Error_msg :: "error \<Rightarrow> string" where
  "Error_msg (Error m) = m"

datatype log_entry = Printf string | Warnf string

subsection \<open>Package strings\<close>

definition HasPrefix :: "string \<Rightarrow> string \<Rightarrow> bool" where
  "HasPrefix s pfx = prefix pfx s"

definition HasSuffix :: "string \<Rightarrow> string \<Rightarrow> bool" where
  "HasSuffix s sfx = suffix sfx s"

definition Contains :: "string \<Rightarrow> string \<Rightarrow> bool" where
  "Contains s substr = sublist substr s"

definition CutSuffix :: "string \<Rightarrow> string \<Rightarrow> string \<times> bool" where
  "CutSuffix s sfx =
     (if HasSuffix s sfx then (take (length s - length sfx) s, True) else (s, False))"

text \<open>
  \<open>strings.Split(s, sep)\<close>: the pieces of \<open>s\<close> between the non-overlapping occurrences of
  \<open>sep\<close>, found from the left. The second argument of \<open>Split_from\<close> is the piece being
  read. With an empty separator Go cuts after every UTF-8 sequence (after every byte of an
  ASCII string); the source only splits at \<open>=\<close> and at \<open>.so.\<close>.
\<close>

function Split_from :: "string \<Rightarrow> string \<Rightarrow> string \<Rightarrow> string list" where
  "Split_from sep cur [] = [cur]"
| "Split_from sep cur (c # cs) =
     (if sep \<noteq> [] \<and> prefix sep (c # cs)
      then cur # Split_from sep [] (drop (length sep) (c # cs))
      else Split_from sep (cur @ [c]) cs)"
  by pat_completeness auto
termination
  by (relation "measure (\<lambda>(sep, cur, s). length s)") auto

definition Split :: "string \<Rightarrow> string \<Rightarrow> string list" where
  "Split s sep = (if sep = [] then map (\<lambda>c. [c]) s else Split_from sep [] s)"

text \<open>
  \<open>strings.ReplaceAll(s, old, new)\<close>: every non-overlapping occurrence of \<open>old\<close>, found
  from the left, becomes \<open>new\<close>. With an empty \<open>old\<close> Go inserts \<open>new\<close> before every
  UTF-8 sequence and at the end; the source only replaces \<open>so:ld-musl\<close>.
\<close>

function ReplaceAll_from :: "string \<Rightarrow> string \<Rightarrow> string \<Rightarrow> string" where
  "ReplaceAll_from old new [] = []"
| "ReplaceAll_from old new (c # cs) =
     (if old \<noteq> [] \<and> prefix old (c # cs)
      then new @ ReplaceAll_from old new (drop (length old) (c # cs))
      else c # ReplaceAll_from old new cs)"
  by pat_completeness auto
termination
  by (relation "measure (\<lambda>(old, new, s). length s)") auto

definition ReplaceAll :: "string \<Rightarrow> string \<Rightarrow> string \<Rightarrow> string" where
  "ReplaceAll s old new =
     (if old = [] then new @ concat (map (\<lambda>c. c # new) s) else ReplaceAll_from old new s)"

text \<open>\<open>bytes.Trim(b, "\x00")\<close>: the NUL bytes at both ends are cut off.\<close>

definition Trim_NUL :: "string \<Rightarrow> string" where
  "Trim_NUL b =
     rev (dropWhile (\<lambda>c. c = char_of (0::nat)) (rev (dropWhile (\<lambda>c. c = char_of (0::nat)) b)))"

subsection \<open>Package path/filepath (Unix)\<close>

text \<open>
  \<open>filepath.Base\<close>: the last element of a path, after the trailing slashes are removed;
  \<open>.\<close> for the empty path and \<open>/\<close> for a path of slashes only.
\<close>

definition Base :: "string \<Rightarrow> string" where
  "Base p =
     (if p = [] then ''.''
      else
        let stripped = rev (dropWhile (\<lambda>c. c = CHR ''/'') (rev p));
            elem = rev (takeWhile (\<lambda>c. c \<noteq> CHR ''/'') (rev stripped))
        in if elem = [] then ''/'' else elem)"

text \<open>
  \<open>filepath.Clean\<close>, by the elements of the path: empty elements and \<open>.\<close> are dropped, an
  element \<open>..\<close> removes the element before it, is dropped at the root, and is kept at the
  head of a relative path. \<open>filepath.Join\<close> joins its elements from the first non-empty
  one on with slashes and cleans the result.
\<close>

fun clean_elems :: "bool \<Rightarrow> string list \<Rightarrow> string list \<Rightarrow> string list" where
  "clean_elems rooted out [] = rev out"
| "clean_elems rooted out (e # es) =
     (if e = [] \<or> e = ''.'' then clean_elems rooted out es
      else if e = ''..'' then
        (case out of
           [] \<Rightarrow> if rooted then clean_elems rooted [] es else clean_elems rooted [''..''] es
         | e' # out' \<Rightarrow>
             if e' = ''..'' then clean_elems rooted (''..'' # out) es
             else clean_elems rooted out' es)
      else clean_elems rooted (e # out) es)"

fun join_with :: "string \<Rightarrow> string list \<Rightarrow> string" where
  "join_with sep [] = []"
| "join_with sep [e] = e"
| "join_with sep (e # es) = e @ sep @ join_with sep es"

definition Clean :: "string \<Rightarrow> string" where
  "Clean p =
     (if p = [] then ''.''
      else
        let rooted = (hd p = CHR ''/'');
            cleaned = join_with ''/'' (clean_elems rooted [] (Split p ''/''))
        in if rooted then ''/'' @ cleaned else if cleaned = [] then ''.'' else cleaned)"

definition Join :: "string list \<Rightarrow> string" where
  "Join elem =
     (case dropWhile (\<lambda>e. e = []) elem of
        [] \<Rightarrow> []
      | e # es \<Rightarrow> Clean (join_with ''/'' (e # es)))"

subsection \<open>Package fmt: the verb \<open>%d\<close>\<close>

function show_nat :: "nat \<Rightarrow> string" where
  "show_nat n =
     (if n < 10 then [''0123456789'' ! n]
      else show_nat (n div 10) @ [''0123456789'' ! (n mod 10)])"
  by pat_completeness auto
termination
  by (relation "measure id") auto

declare show_nat.simps [simp del]

definition show_int :: "int \<Rightarrow> string" where
  "show_int i = (if i < 0 then CHR ''-'' # show_nat (nat (- i)) else show_nat (nat i))"

subsection \<open>Package io/fs: file modes\<close>

type_synonym FileMode = "32 word"

definition ModeDir :: FileMode where "ModeDir = push_bit 31 1"
definition ModeSymlink :: FileMode where "ModeSymlink = push_bit 27 1"
definition ModeDevice :: FileMode where "ModeDevice = push_bit 26 1"
definition ModeNamedPipe :: FileMode where "ModeNamedPipe = push_bit 25 1"
definition ModeSocket :: FileMode where "ModeSocket = push_bit 24 1"
definition ModeCharDevice :: FileMode where "ModeCharDevice = push_bit 21 1"
definition ModeIrregular :: FileMode where "ModeIrregular = push_bit 19 1"

definition ModeType :: FileMode where
  "ModeType =
     ModeDir OR ModeSymlink OR ModeNamedPipe OR ModeSocket OR ModeDevice OR ModeCharDevice
       OR ModeIrregular"

definition ModePerm :: FileMode where "ModePerm = 0x1FF"

definition IsRegular :: "FileMode \<Rightarrow> bool" where
  "IsRegular m = (m AND ModeType = 0)"

definition Perm :: "FileMode \<Rightarrow> FileMode" where
  "Perm m = m AND ModePerm"

definition Type :: "FileMode \<Rightarrow> FileMode" where
  "Type m = m AND ModeType"

record FileInfo =
  fi_Mode :: FileMode
  fi_Size :: "64 word"

subsection \<open>Package debug/elf\<close>

datatype ProgType = PT_NULL | PT_LOAD | PT_DYNAMIC | PT_INTERP | PT_NOTE | PT_PHDR | PT_OTHER

datatype DynTag = DT_NEEDED | DT_SONAME | DT_RPATH | DT_RUNPATH

text \<open>
  An open ELF file, as far as the source reads it: its program headers, each with the
  outcome of reading its segment, and the outcomes of \<open>ImportedLibraries\<close> and of
  \<open>DynString\<close>.
\<close>

record Prog =
  prog_Type :: ProgType
  prog_ReadAll :: "error + string"

record elf_File =
  Progs :: "Prog list"
  ImportedLibraries :: "error + string list"
  DynString :: "DynTag \<Rightarrow> error + string list"

section \<open>The configuration and the package job\<close>

record PackageOption =
  NoProvides :: bool
  NoDepends :: bool
  NoCommands :: bool

record Dependencies =
  Runtime :: "string list"
  Provides :: "string list"
  Replaces :: "string list"
  ProviderPriority :: int

record Copyright =
  License :: string

record Package =
  Name :: string
  Version :: string
  Epoch :: "64 word"
  Copyrights :: "Copyright list"

record Subpackage =
  sub_Name :: string

record Configuration =
  cfg_Package :: Package
  Subpackages :: "Subpackage list"

record Trigger =
  Script :: string
  Paths :: "string list"

record Scriptlets =
  Trigger :: Trigger
  PreInstall :: string
  PostInstall :: string
  PreDeinstall :: string
  PostDeinstall :: string
  PreUpgrade :: string
  PostUpgrade :: string

text \<open>The build context. \<open>SourceDateEpoch\<close> is the time by its Unix seconds.\<close>

record Build =
  Configuration :: Configuration
  SourceDateEpoch :: "64 word"
  WorkspaceDir :: string
  SigningKey :: string
  SigningPassphrase :: string
  CreateBuildLog :: bool
  DependencyLog :: string

text \<open>
  \<open>PackageBuild\<close>. \<open>Origin\<close> is the package of the origin's \<open>PackageContext\<close>; the
  logger the job points to is part of the world below.
\<close>

record PackageBuild =
  Build :: Build
  Origin :: Package
  PackageName :: string
  OriginName :: string
  InstalledSize :: "64 word"
  DataHash :: string
  OutDir :: string
  Dependencies :: Dependencies
  Arch :: string
  Options :: PackageOption
  Scriptlets :: Scriptlets
  Description :: string
  URL :: string
  Commit :: string

section \<open>The system a job runs in\<close>

text \<open>
  What the source asks of the operating system and of the libraries it imports (ELF and
  pkg-config parsing, tar, gzip, JSON, SHA-256, the signers) is a parameter of the model:
  a \<open>system\<close> answers every such call. The staged workspace is
  read through it and never written. \<open>WalkDir\<close> gives, for a root directory, the calls
  that \<open>fs.WalkDir\<close> makes to its function over the symlink-aware view \<open>readlinkFS\<close>
  of that directory, in order: the path, the error handed in, and the outcome of
  \<open>d.Info()\<close>.
\<close>

text \<open>
  The answers of a \<open>system\<close>: \<open>os_Stat p\<close> holds when \<open>os.Stat\<close> returns no error;
  \<open>os_Create\<close>, \<open>os_MkdirAll\<close>, \<open>os_OpenFile_append\<close>, \<open>file_Seek\<close>, \<open>memfs_WriteFile\<close>,
  \<open>tarball_NewContext\<close>, \<open>gzip_Close\<close>, \<open>pgzip_Close\<close> and \<open>pgzip_SetConcurrency\<close> give
  the error of the call, if any; \<open>file_Write name data\<close> is \<open>None\<close> when all of \<open>data\<close>
  is written and \<open>Some (n, err)\<close> when the write fails after \<open>n\<close> bytes;
  \<open>os_CreateTemp pattern\<close> gives the name of the new file up to the part of the pattern
  after its \<open>*\<close>; \<open>WriteTar_dir\<close> and \<open>WriteTar_mem\<close> give the bytes of the tar of a
  directory and of an in-memory tree; \<open>gzip t\<close> and \<open>pgzip t\<close> are the bytes a gzip writer
  (of \<open>klauspost/compress\<close>, of \<open>klauspost/pgzip\<close>) has put out for the input \<open>t\<close> once
  it is closed; \<open>json_Marshal\<close> is the JSON text of the dependency map; \<open>Summarize\<close> gives
  the lines \<open>Dependencies.Summarize\<close> logs; \<open>EmitSignature\<close> is the function of that name
  of the package, which is not in \<open>package.go\<close>.
\<close>

record pkgconfig_Package =
  pkg_Version :: string
  Requires :: "string list"
  RequiresPrivate :: "string list"
  RequiresInternal :: "string list"

record walk_entry =
  path :: string
  walk_err :: "error option"
  d_Info :: "error + FileInfo"

datatype ApkSigner = FulcioApkSigner | KeyApkSigner string string

record TarContext =
  tar_SourceDateEpoch :: "64 word"
  tar_UseChecksums :: bool
  tar_SkipClose :: bool

record system =
  WalkDir :: "string \<Rightarrow> walk_entry list"
  elf_Open :: "string \<Rightarrow> error + elf_File"
  os_Readlink :: "string \<Rightarrow> error + string"
  os_Stat :: "string \<Rightarrow> bool"
  pkgconfig_Load :: "string \<Rightarrow> error + pkgconfig_Package"
  os_Create :: "string \<Rightarrow> error option"
  file_Write :: "string \<Rightarrow> string \<Rightarrow> (nat \<times> error) option"
  json_Marshal :: "(string \<rightharpoonup> string list) \<Rightarrow> string"
  Summarize :: "Dependencies \<Rightarrow> log_entry list"
  os_MkdirAll :: "string \<Rightarrow> error option"
  os_CreateTemp :: "string \<Rightarrow> error + string"
  os_OpenFile_append :: "string \<Rightarrow> error option"
  file_Seek :: "string \<Rightarrow> error option"
  tarball_NewContext :: "TarContext \<Rightarrow> error option"
  WriteTar_dir :: "TarContext \<Rightarrow> string \<Rightarrow> error + string"
  WriteTar_mem :: "TarContext \<Rightarrow> (string \<times> string \<times> FileMode) list \<Rightarrow> error + string"
  memfs_WriteFile :: "string \<Rightarrow> error option"
  gzip :: "string \<Rightarrow> string"
  gzip_Close :: "string \<Rightarrow> error option"
  pgzip :: "string \<Rightarrow> string"
  pgzip_Close :: "string \<Rightarrow> error option"
  pgzip_SetConcurrency :: "int \<Rightarrow> int \<Rightarrow> error option"
  GOMAXPROCS :: int
  sha256_hex :: "string \<Rightarrow> string"
  EmitSignature :: "ApkSigner \<Rightarrow> string \<Rightarrow> 64 word \<Rightarrow> error + string"

text \<open>What a job changes: the lines of the logger and the files it writes.\<close>

record world =
  logger :: "log_entry list"
  files :: "string \<rightharpoonup> string"

definition ErrInvalid :: error where
  "ErrInvalid = Error ''invalid argument''"

section \<open>The dependency scanner\<close>

subsection \<open>dedup\<close>

text \<open>
  \<open>sort.Strings\<close> leaves the strings in ascending order; the sorted arrangement of a
  list of strings is unique, so it is \<^const>\<open>sort\<close>. The loop keeps the strings that
  differ from the one before; \<open>prev\<close> starts as the empty string.
\<close>

fun dedup_loop :: "string \<Rightarrow> string list \<Rightarrow> string list \<Rightarrow> string list" where
  "dedup_loop prev out [] = out"
| "dedup_loop prev out (cur # rest) =
     (if cur = prev then dedup_loop prev out rest else dedup_loop cur (out @ [cur]) rest)"

definition dedup :: "string list \<Rightarrow> string list" where
  "dedup inp = dedup_loop [] [] (sort inp)"

subsection \<open>allowedPrefix and the command providers\<close>

fun allowedPrefix :: "string \<Rightarrow> string list \<Rightarrow> bool" where
  "allowedPrefix p [] = False"
| "allowedPrefix p (pfx # pfxs) =
     (if HasPrefix p pfx then True else allowedPrefix p pfxs)"

definition cmdPrefixes :: "string list" where
  "cmdPrefixes = [''bin'', ''sbin'', ''usr/bin'', ''usr/sbin'']"

definition libDirs :: "string list" where
  "libDirs = [''lib'', ''usr/lib'', ''lib64'', ''usr/lib64'']"

definition WorkspaceSubdir :: "PackageBuild \<Rightarrow> string" where
  "WorkspaceSubdir pc =
     Join [WorkspaceDir (Build pc), ''melange-out'', PackageName pc]"

text \<open>
  The state a walk function works on: the accumulator \<open>generated\<close>, the map \<open>depends\<close>
  (of the shared-object scan only) and the lines of the logger.
\<close>

record scan =
  generated :: Dependencies
  depends :: "string \<rightharpoonup> string list"
  log :: "log_entry list"

definition add_Runtime :: "string list \<Rightarrow> scan \<Rightarrow> scan" where
  "add_Runtime ds st =
     st\<lparr>generated := (generated st)\<lparr>Runtime := Runtime (generated st) @ ds\<rparr>\<rparr>"

definition add_Provides :: "string list \<Rightarrow> scan \<Rightarrow> scan" where
  "add_Provides ds st =
     st\<lparr>generated := (generated st)\<lparr>Provides := Provides (generated st) @ ds\<rparr>\<rparr>"

definition say :: "log_entry \<Rightarrow> scan \<Rightarrow> scan" where
  "say l st = st\<lparr>log := log st @ [l]\<rparr>"

text \<open>\<open>fs.WalkDir\<close> stops at the first call of its function that returns an error.\<close>

fun WalkDir_calls ::
  "(walk_entry \<Rightarrow> scan \<Rightarrow> scan \<times> error option) \<Rightarrow> walk_entry list \<Rightarrow> scan
     \<Rightarrow> scan \<times> error option" where
  "WalkDir_calls fn [] st = (st, None)"
| "WalkDir_calls fn (e # es) st =
     (case fn e st of
        (st', Some err) \<Rightarrow> (st', Some err)
      | (st', None) \<Rightarrow> WalkDir_calls fn es st')"

definition cmd_entry :: "PackageBuild \<Rightarrow> string \<Rightarrow> string" where
  "cmd_entry pc p =
     ''cmd:'' @ Base p @ ''='' @ Version (Origin pc) @ ''-r''
       @ show_nat (unat (Epoch (Origin pc)))"

definition cmdWalkFn :: "PackageBuild \<Rightarrow> walk_entry \<Rightarrow> scan \<Rightarrow> scan \<times> error option" where
  "cmdWalkFn pc e st =
     (case walk_err e of
        Some err \<Rightarrow> (st, Some err)
      | None \<Rightarrow>
          (case d_Info e of
             Inl err \<Rightarrow> (st, Some err)
           | Inr fi \<Rightarrow>
               if \<not> IsRegular (fi_Mode fi) then (st, None)
               else if Perm (fi_Mode fi) AND 0x16D = 0x16D
                 then (if allowedPrefix (path e) cmdPrefixes
                       then (add_Provides [cmd_entry pc (path e)] st, None)
                       else (st, None))
                 else (st, None)))"

text \<open>
  A generator takes the job, the accumulator and the world, and gives back the world,
  the accumulator as it left it, and its error.
\<close>

type_synonym generator_result = "world \<times> Dependencies \<times> error option"

definition run_walk ::
  "system \<Rightarrow> PackageBuild \<Rightarrow> (walk_entry \<Rightarrow> scan \<Rightarrow> scan \<times> error option) \<Rightarrow> scan
     \<Rightarrow> scan \<times> error option" where
  "run_walk sys pc fn st = WalkDir_calls fn (WalkDir sys (WorkspaceSubdir pc)) st"

definition generateCmdProviders ::
  "system \<Rightarrow> PackageBuild \<Rightarrow> Dependencies \<Rightarrow> world \<Rightarrow> generator_result" where
  "generateCmdProviders sys pc gen w =
     (if NoCommands (Options pc) then (w, gen, None)
      else
        let st0 = \<lparr>generated = gen, depends = Map.empty,
                   log = logger w @ [Printf ''scanning for commands...'']\<rparr>;
            r = run_walk sys pc (cmdWalkFn pc) st0
        in (w\<lparr>logger := log (fst r)\<rparr>, generated (fst r), snd r))"

subsection \<open>Shared-object dependencies and providers\<close>

fun findInterpreter_loop :: "Prog list \<Rightarrow> error + string" where
  "findInterpreter_loop [] = Inr []"
| "findInterpreter_loop (prog # progs) =
     (if prog_Type prog \<noteq> PT_INTERP then findInterpreter_loop progs
      else (case prog_ReadAll prog of
              Inl err \<Rightarrow> Inl err
            | Inr interpBuf \<Rightarrow> Inr (Trim_NUL interpBuf)))"

definition findInterpreter :: "elf_File \<Rightarrow> error + string" where
  "findInterpreter bin = findInterpreter_loop (Progs bin)"

definition dereferenceCrossPackageSymlink ::
  "system \<Rightarrow> PackageBuild \<Rightarrow> string \<Rightarrow> error + string" where
  "dereferenceCrossPackageSymlink sys pc p =
     (case os_Readlink sys (Join [WorkspaceSubdir pc, p]) of
        Inl err \<Rightarrow> Inl err
      | Inr target \<Rightarrow>
          let realPath = Base target;
              targetPackageNames =
                [PackageName pc, Name (cfg_Package (Configuration (Build pc)))]
                  @ map sub_Name (Subpackages (Configuration (Build pc)));
              testPaths =
                concat (map (\<lambda>pkgName.
                  map (\<lambda>libDir.
                    Join [Join [WorkspaceDir (Build pc), ''melange-out'', pkgName],
                          libDir, realPath])
                    libDirs)
                  targetPackageNames)
          in (case find (os_Stat sys) testPaths of
                Some testPath \<Rightarrow> Inr testPath
              | None \<Rightarrow> Inr []))"

definition soSymlink :: "system \<Rightarrow> PackageBuild \<Rightarrow> walk_entry \<Rightarrow> scan \<Rightarrow> scan \<times> error option" where
  "soSymlink sys pc e st =
     (if \<not> Contains (path e) ''.so'' then (st, None)
      else
        (case dereferenceCrossPackageSymlink sys pc (path e) of
           Inl err \<Rightarrow> (st, None)
         | Inr realPath \<Rightarrow>
             if realPath \<noteq> [] then
               (case elf_Open sys realPath of
                  Inl err \<Rightarrow> (st, None)
                | Inr ef \<Rightarrow>
                    (case DynString ef DT_SONAME of
                       Inl err \<Rightarrow>
                         (say (Warnf (''library '' @ path e @ '' lacks SONAME'')) st, None)
                     | Inr sonames \<Rightarrow>
                         (add_Runtime (map (\<lambda>soname. ''so:'' @ soname) sonames) st, None)))
             else (st, None)))"

definition interpName :: "string \<Rightarrow> string" where
  "interpName interp = ReplaceAll (''so:'' @ Base interp) ''so:ld-musl'' ''so:libc.musl''"

definition libver :: "string \<Rightarrow> string" where
  "libver soname =
     (let parts = Split soname ''.so.'' in if length parts > 1 then parts ! 1 else ''0'')"

definition soname_entry :: "string \<Rightarrow> string" where
  "soname_entry soname = ''so:'' @ soname @ ''='' @ libver soname"

fun record_depends ::
  "string \<Rightarrow> string list \<Rightarrow> (string \<rightharpoonup> string list) \<Rightarrow> (string \<rightharpoonup> string list)" where
  "record_depends p [] m = m"
| "record_depends p (lib # libs) m =
     (if Contains lib ''.so.''
      then record_depends p libs
             (m(lib \<mapsto> (case m lib of None \<Rightarrow> [] | Some ps \<Rightarrow> ps) @ [p]))
      else record_depends p libs m)"

definition soProvides :: "PackageBuild \<Rightarrow> walk_entry \<Rightarrow> elf_File \<Rightarrow> scan \<Rightarrow> scan \<times> error option" where
  "soProvides pc e ef st =
     (if \<not> allowedPrefix (path e) libDirs then (st, None)
      else
        (case DynString ef DT_SONAME of
           Inl err \<Rightarrow> (say (Warnf (''library '' @ path e @ '' lacks SONAME'')) st, None)
         | Inr sonames \<Rightarrow> (add_Provides (map soname_entry sonames) st, None)))"

definition soExecutable ::
  "system \<Rightarrow> PackageBuild \<Rightarrow> walk_entry \<Rightarrow> scan \<Rightarrow> scan \<times> error option" where
  "soExecutable sys pc e st =
     (let basename = Base (path e) in
      case elf_Open sys (Join [WorkspaceSubdir pc, path e]) of
        Inl err \<Rightarrow> (st, None)
      | Inr ef \<Rightarrow>
          (case findInterpreter ef of
             Inl err \<Rightarrow> (st, Some err)
           | Inr interp \<Rightarrow>
               let st1 =
                     (if interp \<noteq> [] \<and> \<not> NoDepends (Options pc)
                      then add_Runtime [interpName interp]
                             (say (Printf (''interpreter for '' @ basename @ '' => '' @ interp)) st)
                      else st)
               in (case ImportedLibraries ef of
                     Inl err \<Rightarrow>
                       (say (Warnf (''WTF: ImportedLibraries() returned error: ''
                                      @ Error_msg err)) st1, None)
                   | Inr libs \<Rightarrow>
                       let st2 =
                             (if \<not> NoDepends (Options pc)
                              then (add_Runtime
                                      (map (\<lambda>lib. ''so:'' @ lib)
                                         (filter (\<lambda>lib. Contains lib ''.so.'') libs)) st1)
                                     \<lparr>depends := record_depends (path e) libs (depends st1)\<rparr>
                              else st1)
                       in if \<not> NoProvides (Options pc)
                               \<and> (interp = [] \<or> HasPrefix basename ''libc'')
                          then soProvides pc e ef st2
                          else (st2, None))))"

definition soWalkFn ::
  "system \<Rightarrow> PackageBuild \<Rightarrow> walk_entry \<Rightarrow> scan \<Rightarrow> scan \<times> error option" where
  "soWalkFn sys pc e st =
     (case walk_err e of
        Some err \<Rightarrow> (st, Some err)
      | None \<Rightarrow>
          (case d_Info e of
             Inl err \<Rightarrow> (st, Some err)
           | Inr fi \<Rightarrow>
               if Type (fi_Mode fi) AND ModeSymlink = ModeSymlink then soSymlink sys pc e st
               else if \<not> IsRegular (fi_Mode fi) then (st, None)
               else if Perm (fi_Mode fi) AND 0x16D = 0x16D then soExecutable sys pc e st
               else (st, None)))"

text \<open>
  The dependency log. When \<open>os.Create\<close> fails the warning is logged and \<open>logFile\<close> is
  nil; the encoder then writes to the nil file, and \<open>Write\<close> on a nil \<open>*os.File\<close>
  returns \<open>os.ErrInvalid\<close>. \<open>Encode\<close> writes the JSON text and a newline.
\<close>

definition append_file :: "string \<Rightarrow> string \<Rightarrow> world \<Rightarrow> world" where
  "append_file name data w =
     w\<lparr>files := (files w)(name \<mapsto> (case files w name of None \<Rightarrow> [] | Some old \<Rightarrow> old) @ data)\<rparr>"

definition write_file :: "system \<Rightarrow> string \<Rightarrow> string \<Rightarrow> world \<Rightarrow> world \<times> error option" where
  "write_file sys name data w =
     (case file_Write sys name data of
        None \<Rightarrow> (append_file name data w, None)
      | Some (n, err) \<Rightarrow> (append_file name (take n data) w, Some err))"

definition dependency_log_name :: "PackageBuild \<Rightarrow> string" where
  "dependency_log_name pc = DependencyLog (Build pc) @ ''.'' @ Arch pc"

definition writeDependencyLog ::
  "system \<Rightarrow> PackageBuild \<Rightarrow> (string \<rightharpoonup> string list) \<Rightarrow> world \<Rightarrow> world \<times> error option" where
  "writeDependencyLog sys pc deps w =
     (let w1 = w\<lparr>logger := logger w @ [Printf ''writing dependency log'']\<rparr>;
          data = json_Marshal sys deps @ [CHR 0x0A]
      in case os_Create sys (dependency_log_name pc) of
           Some err \<Rightarrow>
             (w1\<lparr>logger := logger w1
                    @ [Warnf (''Unable to open dependency log: '' @ Error_msg err)]\<rparr>,
              Some ErrInvalid)
         | None \<Rightarrow>
             write_file sys (dependency_log_name pc) data
               (w1\<lparr>files := (files w1)(dependency_log_name pc \<mapsto> [])\<rparr>))"

definition generateSharedObjectNameDeps ::
  "system \<Rightarrow> PackageBuild \<Rightarrow> Dependencies \<Rightarrow> world \<Rightarrow> generator_result" where
  "generateSharedObjectNameDeps sys pc gen w =
     (let st0 = \<lparr>generated = gen, depends = Map.empty,
                 log = logger w @ [Printf ''scanning for shared object dependencies...'']\<rparr>;
          r = run_walk sys pc (soWalkFn sys pc) st0;
          w1 = w\<lparr>logger := log (fst r)\<rparr>
      in case snd r of
           Some err \<Rightarrow> (w1, generated (fst r), Some err)
         | None \<Rightarrow>
             if DependencyLog (Build pc) \<noteq> []
             then (let r2 = writeDependencyLog sys pc (depends (fst r)) w1
                   in (fst r2, generated (fst r), snd r2))
             else (w1, generated (fst r), None))"

subsection \<open>pkg-config providers\<close>

text \<open>
  \<open>pkgConfigVersionRegexp\<close> is \<open>-(alpha|beta|rc|pre)\<close>. A match at the head of a string is
  a dash followed by the first of the four words that the rest begins with; the word is
  the group \<open>$1\<close>. \<open>ReplaceAllString(src, "_$1")\<close> rewrites every match, leftmost first
  and non-overlapping, to an underscore and the word.
\<close>

fun first_word :: "string list \<Rightarrow> string \<Rightarrow> string option" where
  "first_word [] s = None"
| "first_word (a # alts) s = (if prefix a s then Some a else first_word alts s)"

definition pkgConfigVersionRegexp_match :: "string \<Rightarrow> string option" where
  "pkgConfigVersionRegexp_match s =
     (case s of
        [] \<Rightarrow> None
      | c # t \<Rightarrow>
          if c = CHR ''-'' then first_word [''alpha'', ''beta'', ''rc'', ''pre''] t else None)"

function ReplaceAllString :: "string \<Rightarrow> string" where
  "ReplaceAllString [] = []"
| "ReplaceAllString (c # cs) =
     (case pkgConfigVersionRegexp_match (c # cs) of
        Some g \<Rightarrow> ''_'' @ g @ ReplaceAllString (drop (length g) cs)
      | None \<Rightarrow> c # ReplaceAllString cs)"
  by pat_completeness auto
termination
  by (relation "measure length") auto

definition generateRuntimePkgConfigDeps :: bool where
  "generateRuntimePkgConfigDeps = False"

definition pc_entry :: "string \<Rightarrow> string \<Rightarrow> string" where
  "pc_entry p version =
     ''pc:'' @ fst (CutSuffix (Base p) ''.pc'') @ ''='' @ ReplaceAllString version"

definition pcWalkFn ::
  "system \<Rightarrow> PackageBuild \<Rightarrow> walk_entry \<Rightarrow> scan \<Rightarrow> scan \<times> error option" where
  "pcWalkFn sys pc e st =
     (case walk_err e of
        Some err \<Rightarrow> (st, Some err)
      | None \<Rightarrow>
          if \<not> HasSuffix (path e) ''.pc'' then (st, None)
          else
            (case d_Info e of
               Inl err \<Rightarrow> (st, Some err)
             | Inr fi \<Rightarrow>
                 if Type (fi_Mode fi) AND ModeSymlink = ModeSymlink then (st, None)
                 else
                   (case pkgconfig_Load sys (Join [WorkspaceSubdir pc, path e]) of
                      Inl err \<Rightarrow>
                        (say (Warnf (''Unable to load .pc file ('' @ path e
                                       @ '') using pkgconfig: '' @ Error_msg err)) st, None)
                    | Inr pkg \<Rightarrow>
                        let st1 =
                              (if \<not> NoProvides (Options pc)
                               then add_Provides [pc_entry (path e) (pkg_Version pkg)] st
                               else st);
                            st2 =
                              (if generateRuntimePkgConfigDeps
                               then add_Runtime
                                      (map (\<lambda>dep. ''pc:'' @ dep)
                                         (Requires pkg @ RequiresPrivate pkg
                                            @ RequiresInternal pkg)) st1
                               else st1)
                        in (st2, None))))"

definition generatePkgConfigDeps ::
  "system \<Rightarrow> PackageBuild \<Rightarrow> Dependencies \<Rightarrow> world \<Rightarrow> generator_result" where
  "generatePkgConfigDeps sys pc gen w =
     (let st0 = \<lparr>generated = gen, depends = Map.empty,
                 log = logger w @ [Printf ''scanning for pkg-config data...'']\<rparr>;
          r = run_walk sys pc (pcWalkFn sys pc) st0
      in (w\<lparr>logger := log (fst r)\<rparr>, generated (fst r), snd r))"

subsection \<open>Merge and self-filter\<close>

fun providedDepsMap_loop :: "string list \<Rightarrow> (string \<rightharpoonup> bool) \<Rightarrow> (string \<rightharpoonup> bool)" where
  "providedDepsMap_loop [] m = m"
| "providedDepsMap_loop (versionedDep # rest) m =
     providedDepsMap_loop rest (m(hd (Split versionedDep ''='') \<mapsto> True))"

fun newRuntimeDeps_loop ::
  "(string \<rightharpoonup> bool) \<Rightarrow> string list \<Rightarrow> string list \<Rightarrow> string list" where
  "newRuntimeDeps_loop m acc [] = acc"
| "newRuntimeDeps_loop m acc (dep # rest) =
     (case m dep of
        Some v \<Rightarrow> newRuntimeDeps_loop m acc rest
      | None \<Rightarrow> newRuntimeDeps_loop m (acc @ [dep]) rest)"

definition removeSelfProvidedDeps :: "string list \<Rightarrow> string list \<Rightarrow> string list" where
  "removeSelfProvidedDeps runtimeDeps providedDeps =
     newRuntimeDeps_loop (providedDepsMap_loop providedDeps Map.empty) [] runtimeDeps"

definition no_Dependencies :: Dependencies where
  "no_Dependencies = \<lparr>Runtime = [], Provides = [], Replaces = [], ProviderPriority = 0\<rparr>"

fun run_generators ::
  "(PackageBuild \<Rightarrow> Dependencies \<Rightarrow> world \<Rightarrow> generator_result) list
     \<Rightarrow> PackageBuild \<Rightarrow> Dependencies \<Rightarrow> world \<Rightarrow> generator_result" where
  "run_generators [] pc gen w = (w, gen, None)"
| "run_generators (g # gs) pc gen w =
     (case g pc gen w of
        (w', gen', Some err) \<Rightarrow> (w', gen', Some err)
      | (w', gen', None) \<Rightarrow> run_generators gs pc gen' w')"

definition generators ::
  "system \<Rightarrow> (PackageBuild \<Rightarrow> Dependencies \<Rightarrow> world \<Rightarrow> generator_result) list" where
  "generators sys =
     [generateSharedObjectNameDeps sys, generateCmdProviders sys, generatePkgConfigDeps sys]"

definition merge_Dependencies :: "Dependencies \<Rightarrow> Dependencies \<Rightarrow> Dependencies" where
  "merge_Dependencies declared gen =
     (let d1 = declared\<lparr>Runtime := dedup (Runtime declared @ Runtime gen)\<rparr>;
          d2 = d1\<lparr>Provides := dedup (Provides d1 @ Provides gen)\<rparr>
      in d2\<lparr>Runtime := removeSelfProvidedDeps (Runtime d2) (Provides d2)\<rparr>)"

text \<open>
  \<open>GenerateDependencies\<close> gives back the world, the job (its \<open>Dependencies\<close> replaced
  when every generator succeeded, untouched otherwise) and the error.
\<close>

definition GenerateDependencies ::
  "system \<Rightarrow> PackageBuild \<Rightarrow> world \<Rightarrow> world \<times> PackageBuild \<times> error option" where
  "GenerateDependencies sys pc w =
     (case run_generators (generators sys) pc no_Dependencies w of
        (w1, gen, Some err) \<Rightarrow> (w1, pc, Some err)
      | (w1, gen, None) \<Rightarrow>
          let deps = merge_Dependencies (Dependencies pc) gen
          in (w1\<lparr>logger := logger w1 @ Summarize sys deps\<rparr>, pc\<lparr>Dependencies := deps\<rparr>, None))"

section \<open>The package assembler\<close>

definition wrap :: "string \<Rightarrow> error \<Rightarrow> error" where
  "wrap context err = Error (context @ '': '' @ Error_msg err)"

definition logf :: "log_entry \<Rightarrow> world \<Rightarrow> world" where
  "logf l w = w\<lparr>logger := logger w @ [l]\<rparr>"

definition version_release :: "PackageBuild \<Rightarrow> string" where
  "version_release pc = Version (Origin pc) @ ''-r'' @ show_nat (unat (Epoch (Origin pc)))"

definition Identity :: "PackageBuild \<Rightarrow> string" where
  "Identity pc = PackageName pc @ ''-'' @ version_release pc"

definition Filename :: "PackageBuild \<Rightarrow> string" where
  "Filename pc = OutDir pc @ ''/'' @ Identity pc @ ''.apk''"

subsection \<open>AppendBuildLog\<close>

definition build_log_line :: "PackageBuild \<Rightarrow> string" where
  "build_log_line pc =
     Arch pc @ ''|'' @ OriginName pc @ ''|'' @ PackageName pc @ ''|'' @ version_release pc
       @ [CHR 0x0A]"

definition AppendBuildLog ::
  "system \<Rightarrow> PackageBuild \<Rightarrow> string \<Rightarrow> world \<Rightarrow> world \<times> error option" where
  "AppendBuildLog sys pc dir w =
     (if \<not> CreateBuildLog (Build pc) then (w, None)
      else
        (case os_OpenFile_append sys (Join [dir, ''packages.log'']) of
           Some err \<Rightarrow> (w, Some err)
         | None \<Rightarrow> write_file sys (Join [dir, ''packages.log'']) (build_log_line pc) (append_file (Join [dir, ''packages.log'']) [] w)))"

subsection \<open>The control section\<close>

text \<open>
  \<open>controlTemplate\<close>, executed on the job. An action that opens with \<open>{{-\<close> takes the
  line break before it away, so every optional line brings its own line break.
\<close>

definition control_line :: "string \<Rightarrow> string \<Rightarrow> string" where
  "control_line key v = [CHR 0x0A] @ key @ '' = '' @ v"

definition GenerateControlData :: "PackageBuild \<Rightarrow> string" where
  "GenerateControlData pc =
     ''# Generated by melange.''
     @ control_line ''pkgname'' (PackageName pc)
     @ control_line ''pkgver'' (version_release pc)
     @ control_line ''arch'' (Arch pc)
     @ control_line ''size'' (show_int (sint (InstalledSize pc)))
     @ control_line ''origin'' (OriginName pc)
     @ control_line ''pkgdesc'' (Description pc)
     @ control_line ''url'' (URL pc)
     @ control_line ''commit'' (Commit pc)
     @ (if sint (SourceDateEpoch (Build pc)) \<noteq> 0
        then control_line ''builddate'' (show_int (sint (SourceDateEpoch (Build pc))))
        else [])
     @ concat (map (\<lambda>c. control_line ''license'' (License c)) (Copyrights (Origin pc)))
     @ concat (map (control_line ''depend'') (Runtime (Dependencies pc)))
     @ concat (map (control_line ''provides'') (Provides (Dependencies pc)))
     @ concat (map (control_line ''replaces'') (Replaces (Dependencies pc)))
     @ (if ProviderPriority (Dependencies pc) \<noteq> 0
        then control_line ''provider_priority'' (show_int (ProviderPriority (Dependencies pc)))
        else [])
     @ (if Paths (Trigger (Scriptlets pc)) \<noteq> []
        then control_line ''triggers''
               (concat (map (\<lambda>item. item @ '' '') (Paths (Trigger (Scriptlets pc)))))
        else [])
     @ control_line ''datahash'' (DataHash pc)
     @ [CHR 0x0A]"

text \<open>
  The files of the control tree, in the order the source writes them: \<open>.PKGINFO\<close> at mode
  0644, then each scriptlet that is not empty at mode 0755.
\<close>

definition control_files :: "PackageBuild \<Rightarrow> (string \<times> string \<times> FileMode) list" where
  "control_files pc =
     (''.PKGINFO'', GenerateControlData pc, 0x1A4)
     # map (\<lambda>(name, script). (name, script, 0x1ED))
         (filter (\<lambda>(name, script). script \<noteq> [])
            [(''.trigger'', Script (Trigger (Scriptlets pc))),
             (''.pre-install'', PreInstall (Scriptlets pc)),
             (''.post-install'', PostInstall (Scriptlets pc)),
             (''.pre-deinstall'', PreDeinstall (Scriptlets pc)),
             (''.post-deinstall'', PostDeinstall (Scriptlets pc)),
             (''.pre-upgrade'', PreUpgrade (Scriptlets pc)),
             (''.post-upgrade'', PostUpgrade (Scriptlets pc))])"

fun memfs_WriteFiles ::
  "system \<Rightarrow> (string \<times> string \<times> FileMode) list \<Rightarrow> error option" where
  "memfs_WriteFiles sys [] = None"
| "memfs_WriteFiles sys (f # fs) =
     (case memfs_WriteFile sys (fst f) of
        Some err \<Rightarrow> Some (wrap ''unable to build control FS'' err)
      | None \<Rightarrow> memfs_WriteFiles sys fs)"

definition control_TarContext :: "PackageBuild \<Rightarrow> TarContext" where
  "control_TarContext pc =
     \<lparr>tar_SourceDateEpoch = SourceDateEpoch (Build pc), tar_UseChecksums = False,
      tar_SkipClose = True\<rparr>"

definition data_TarContext :: "PackageBuild \<Rightarrow> TarContext" where
  "data_TarContext pc =
     \<lparr>tar_SourceDateEpoch = SourceDateEpoch (Build pc), tar_UseChecksums = True,
      tar_SkipClose = False\<rparr>"

text \<open>
  The bytes a gzip writer has put out once it is closed are \<open>gzip sys t\<close>, for the bytes
  \<open>t\<close> written to it: one finished gzip member.
\<close>

definition generateControlSection :: "system \<Rightarrow> PackageBuild \<Rightarrow> error + string" where
  "generateControlSection sys pc =
     (case tarball_NewContext sys (control_TarContext pc) of
        Some err \<Rightarrow> Inl (wrap ''unable to build tarball context'' err)
      | None \<Rightarrow>
          (case memfs_WriteFiles sys (control_files pc) of
             Some err \<Rightarrow> Inl err
           | None \<Rightarrow>
               (case WriteTar_mem sys (control_TarContext pc) (control_files pc) of
                  Inl err \<Rightarrow> Inl (wrap ''unable to write control tarball'' err)
                | Inr t \<Rightarrow>
                    (case gzip_Close sys t of
                       Some err \<Rightarrow> Inl (wrap ''flushing control section gzip'' err)
                     | None \<Rightarrow> Inr (gzip sys t)))))"

subsection \<open>The installed size and the data section\<close>

fun calculateInstalledSize_walk :: "walk_entry list \<Rightarrow> 64 word \<Rightarrow> 64 word \<times> error option" where
  "calculateInstalledSize_walk [] n = (n, None)"
| "calculateInstalledSize_walk (e # es) n =
     (case walk_err e of
        Some err \<Rightarrow> (n, Some err)
      | None \<Rightarrow>
          (case d_Info e of
             Inl err \<Rightarrow> (n, Some err)
           | Inr fi \<Rightarrow> calculateInstalledSize_walk es (n + fi_Size fi)))"

definition calculateInstalledSize ::
  "system \<Rightarrow> PackageBuild \<Rightarrow> PackageBuild \<times> error option" where
  "calculateInstalledSize sys pc =
     (case calculateInstalledSize_walk (WalkDir sys (WorkspaceSubdir pc)) (InstalledSize pc) of
        (n, Some err) \<Rightarrow>
          (pc\<lparr>InstalledSize := n\<rparr>, Some (wrap ''unable to preprocess package data'' err))
      | (n, None) \<Rightarrow> (pc\<lparr>InstalledSize := n\<rparr>, None))"

definition pgzipThreads :: "system \<Rightarrow> int" where
  "pgzipThreads sys = min (GOMAXPROCS sys) 8"

text \<open>
  \<open>emitDataSection\<close> writes to the temporary file \<open>tmp\<close>. The bytes that reach the file
  before an error are left out: the file is removed when \<open>EmitPackage\<close> returns.
\<close>

definition emitDataSection ::
  "system \<Rightarrow> PackageBuild \<Rightarrow> string \<Rightarrow> world \<Rightarrow> world \<times> PackageBuild \<times> error option" where
  "emitDataSection sys pc tmp w =
     (case tarball_NewContext sys (data_TarContext pc) of
        Some err \<Rightarrow> (w, pc, Some (wrap ''unable to build tarball context'' err))
      | None \<Rightarrow>
          (case pgzip_SetConcurrency sys (2 ^ 20) (pgzipThreads sys) of
             Some err \<Rightarrow>
               (w, pc, Some (wrap (''tried to set pgzip concurrency to ''
                                     @ show_int (pgzipThreads sys)) err))
           | None \<Rightarrow>
               (case WriteTar_dir sys (data_TarContext pc) (WorkspaceSubdir pc) of
                  Inl err \<Rightarrow> (w, pc, Some (wrap ''unable to write data tarball'' err))
                | Inr t \<Rightarrow>
                    (case pgzip_Close sys t of
                       Some err \<Rightarrow> (w, pc, Some (wrap ''flushing data section gzip'' err))
                     | None \<Rightarrow>
                         let pc1 = pc\<lparr>DataHash := sha256_hex sys (pgzip sys t)\<rparr>;
                             w1 = logf (Printf (''  data.tar.gz digest: '' @ DataHash pc1))
                                    (append_file tmp (pgzip sys t) w)
                         in (case file_Seek sys tmp of
                               Some err \<Rightarrow>
                                 (w1, pc1, Some (wrap ''unable to rewind data tarball'' err))
                             | None \<Rightarrow> (w1, pc1, None))))))"

subsection \<open>The signer and the assembly\<close>

definition wantSignature :: "PackageBuild \<Rightarrow> bool" where
  "wantSignature pc = (SigningKey (Build pc) \<noteq> [])"

definition Signer :: "PackageBuild \<Rightarrow> ApkSigner" where
  "Signer pc =
     (if SigningKey (Build pc) = [] then FulcioApkSigner
      else KeyApkSigner (SigningKey (Build pc)) (SigningPassphrase (Build pc)))"

datatype reader = BytesReader string | FileReader string

fun read_all :: "reader \<Rightarrow> world \<Rightarrow> string" where
  "read_all (BytesReader b) w = b"
| "read_all (FileReader name) w = (case files w name of None \<Rightarrow> [] | Some b \<Rightarrow> b)"

fun combine :: "system \<Rightarrow> string \<Rightarrow> reader list \<Rightarrow> world \<Rightarrow> world \<times> error option" where
  "combine sys out [] w = (w, None)"
| "combine sys out (input # inputs) w =
     (case write_file sys out (read_all input w) w of
        (w', Some err) \<Rightarrow> (w', Some err)
      | (w', None) \<Rightarrow> combine sys out inputs w')"

definition CreateTemp :: "system \<Rightarrow> string \<Rightarrow> string \<Rightarrow> error + string" where
  "CreateTemp sys pfx sfx =
     (case os_CreateTemp sys (pfx @ ''*'' @ sfx) of
        Inl err \<Rightarrow> Inl err
      | Inr stem \<Rightarrow> Inr (stem @ sfx))"

definition writePackage ::
  "system \<Rightarrow> PackageBuild \<Rightarrow> reader list \<Rightarrow> world \<Rightarrow> world \<times> error option" where
  "writePackage sys pc combinedParts w =
     (case os_MkdirAll sys (OutDir pc) of
        Some err \<Rightarrow> (w, Some (wrap ''unable to create output directory'' err))
      | None \<Rightarrow>
          (case os_Create sys (Filename pc) of
             Some err \<Rightarrow> (w, Some (wrap ''unable to create apk file'' err))
           | None \<Rightarrow>
               (case combine sys (Filename pc) combinedParts
                       (w\<lparr>files := (files w)(Filename pc \<mapsto> [])\<rparr>) of
                  (w1, Some err) \<Rightarrow> (w1, Some (wrap ''unable to write apk file'' err))
                | (w1, None) \<Rightarrow>
                    (case AppendBuildLog sys pc [] (logf (Printf (''wrote '' @ Filename pc)) w1) of
                       (w2, Some err) \<Rightarrow>
                         (logf (Warnf (''unable to append package log: '' @ Error_msg err)) w2,
                          None)
                     | (w2, None) \<Rightarrow> (w2, None)))))"

definition emitSections ::
  "system \<Rightarrow> PackageBuild \<Rightarrow> string \<Rightarrow> world \<Rightarrow> world \<times> PackageBuild \<times> error option" where
  "emitSections sys pc tmp w =
     (case emitDataSection sys pc tmp w of
        (w1, pc1, Some err) \<Rightarrow> (w1, pc1, Some err)
      | (w1, pc1, None) \<Rightarrow>
          (case generateControlSection sys pc1 of
             Inl err \<Rightarrow> (w1, pc1, Some err)
           | Inr controlSectionData \<Rightarrow>
               if wantSignature pc1 then
                 (case EmitSignature sys (Signer pc1) controlSectionData
                         (SourceDateEpoch (Build pc1)) of
                    Inl err \<Rightarrow> (w1, pc1, Some (wrap ''emitting signature'' err))
                  | Inr signatureData \<Rightarrow>
                      (let r = writePackage sys pc1
                                 [BytesReader signatureData, BytesReader controlSectionData,
                                  FileReader tmp] w1
                       in (fst r, pc1, snd r)))
               else
                 (let r = writePackage sys pc1
                            [BytesReader controlSectionData, FileReader tmp] w1
                  in (fst r, pc1, snd r))))"

text \<open>
  \<open>EmitPackage\<close>. The deferred \<open>os.Remove\<close> takes the temporary file away on every
  return after its creation.
\<close>

definition EmitPackage ::
  "system \<Rightarrow> PackageBuild \<Rightarrow> world \<Rightarrow> world \<times> PackageBuild \<times> error option" where
  "EmitPackage sys pc w =
     (case os_MkdirAll sys (WorkspaceSubdir pc) of
        Some err \<Rightarrow> (w, pc, Some (wrap ''unable to ensure workspace exists'' err))
      | None \<Rightarrow>
          (case GenerateDependencies sys pc (logf (Printf (''generating package '' @ Identity pc)) w) of
             (w1, pc1, Some err) \<Rightarrow>
               (w1, pc1, Some (wrap ''unable to build final dependencies set'' err))
           | (w1, pc1, None) \<Rightarrow>
               (case calculateInstalledSize sys pc1 of
                  (pc2, Some err) \<Rightarrow> (w1, pc2, Some err)
                | (pc2, None) \<Rightarrow>
                    (case CreateTemp sys ''melange-data-'' ''.tar.gz'' of
                       Inl err \<Rightarrow>
                         (logf (Printf (''  installed-size: ''
                                          @ show_int (sint (InstalledSize pc2)))) w1,
                          pc2, Some (wrap ''unable to open temporary file for writing'' err))
                     | Inr tmp \<Rightarrow>
                         (let w2 = logf (Printf (''  installed-size: ''
                                                   @ show_int (sint (InstalledSize pc2)))) w1;
                              r = emitSections sys pc2 tmp
                                    (w2\<lparr>files := (files w2)(tmp \<mapsto> [])\<rparr>)
                          in ((fst r)\<lparr>files := (files (fst r))(tmp := None)\<rparr>, snd r))))))"

section \<open>The specification's words\<close>

text \<open>
  Definitions that follow the wording of the specification, to be compared with the
  functions of the source above: the text before and after the first occurrence of a
  separator, the version rewrite, the library version and the interpreter name.
\<close>

fun before_first :: "string \<Rightarrow> string \<Rightarrow> string" where
  "before_first sep [] = []"
| "before_first sep (c # cs) = (if prefix sep (c # cs) then [] else c # before_first sep cs)"

fun after_first :: "string \<Rightarrow> string \<Rightarrow> string option" where
  "after_first sep [] = None"
| "after_first sep (c # cs) =
     (if prefix sep (c # cs) then Some (drop (length sep) (c # cs)) else after_first sep cs)"

text \<open>The name of a provides entry: the text before the first \<open>=\<close>.\<close>

definition dep_name :: "string \<Rightarrow> string" where
  "dep_name p = takeWhile (\<lambda>c. c \<noteq> CHR ''='') p"

text \<open>
  The library version in the specification's words: the part of the soname to the right
  of \<open>.so.\<close>, or \<open>0\<close> when \<open>.so.\<close> is absent; read at the first, and at the last,
  \<open>.so.\<close> of the soname.
\<close>

definition libver_right_of_first :: "string \<Rightarrow> string" where
  "libver_right_of_first soname =
     (case after_first ''.so.'' soname of None \<Rightarrow> ''0'' | Some r \<Rightarrow> r)"

function after_last :: "string \<Rightarrow> string \<Rightarrow> string option" where
  "after_last sep s =
     (case after_first sep s of
        None \<Rightarrow> None
      | Some r \<Rightarrow>
          if length r < length s
          then (case after_last sep r of None \<Rightarrow> Some r | Some r' \<Rightarrow> Some r')
          else Some r)"
  by pat_completeness auto
termination
  by (relation "measure (\<lambda>(sep, s). length s)") auto

declare after_last.simps [simp del]

definition libver_right_of_last :: "string \<Rightarrow> string" where
  "libver_right_of_last soname =
     (case after_last ''.so.'' soname of None \<Rightarrow> ''0'' | Some r \<Rightarrow> r)"

text \<open>
  What the source computes: the text between the first \<open>.so.\<close> and the next one (or the
  end of the soname).
\<close>

definition libver_between :: "string \<Rightarrow> string" where
  "libver_between soname =
     (case after_first ''.so.'' soname of
        None \<Rightarrow> ''0''
      | Some r \<Rightarrow> before_first ''.so.'' r)"

text \<open>
  The version rewrite. \<open>version_word_at t\<close>: the text \<open>t\<close> begins with one of the four
  words. \<open>rewrite_first\<close> turns the dash of the first \<open>-alpha\<close>, \<open>-beta\<close>, \<open>-rc\<close> or
  \<open>-pre\<close> into an underscore, \<open>rewrite_every\<close> the dash of every one.
\<close>

definition version_word_at :: "string \<Rightarrow> bool" where
  "version_word_at t =
     (prefix ''alpha'' t \<or> prefix ''beta'' t \<or> prefix ''rc'' t \<or> prefix ''pre'' t)"

fun rewrite_first :: "string \<Rightarrow> string" where
  "rewrite_first [] = []"
| "rewrite_first (c # cs) =
     (if c = CHR ''-'' \<and> version_word_at cs then CHR ''_'' # cs else c # rewrite_first cs)"

fun rewrite_every :: "string \<Rightarrow> string" where
  "rewrite_every [] = []"
| "rewrite_every (c # cs) =
     (if c = CHR ''-'' \<and> version_word_at cs then CHR ''_'' else c) # rewrite_every cs"

text \<open>
  The interpreter name in the specification's words: \<open>so:\<close> and the base name, with the
  prefix \<open>so:ld-musl\<close> replaced by \<open>so:libc.musl\<close>.
\<close>

definition interpName_prefix :: "string \<Rightarrow> string" where
  "interpName_prefix interp =
     (if prefix ''so:ld-musl'' (''so:'' @ Base interp)
      then ''so:libc.musl'' @ drop (length ''so:ld-musl'') (''so:'' @ Base interp)
      else ''so:'' @ Base interp)"

text \<open>
  Modelled from the spec: the decoder of a stream of concatenated gzip members (the
  readers of gzip are libraries, and the consumer of the package is \<open>apk-tools\<close>; neither
  is in the source). \<open>next_member\<close> reads one member at the head of its input and gives
  the bytes it decodes to and the rest of the input; \<open>read_members\<close> reads member after
  member to the end of the input, at most \<open>n\<close> of them. \<open>reads_members_of next_member gz\<close>:
  the reader decodes what the writer \<open>gz\<close> puts out, whatever follows it.
\<close>

fun read_members ::
  "(string \<Rightarrow> (string \<times> string) option) \<Rightarrow> nat \<Rightarrow> string \<Rightarrow> string list option" where
  "read_members next_member n [] = Some []"
| "read_members next_member 0 (c # cs) = None"
| "read_members next_member (Suc n) (c # cs) =
     (case next_member (c # cs) of
        None \<Rightarrow> None
      | Some (payload, rest) \<Rightarrow>
          (case read_members next_member n rest of
             None \<Rightarrow> None
           | Some payloads \<Rightarrow> Some (payload # payloads)))"

definition reads_members_of :: "(string \<Rightarrow> (string \<times> string) option) \<Rightarrow> (string \<Rightarrow> string) \<Rightarrow> bool" where
  "reads_members_of next_member gz = (\<forall>t rest. next_member (gz t @ rest) = Some (t, rest))"

text \<open>The job with its \<open>create-build-log\<close> flag set to a value.\<close>

definition with_CreateBuildLog :: "bool \<Rightarrow> PackageBuild \<Rightarrow> PackageBuild" where
  "with_CreateBuildLog b pc = pc\<lparr>Build := (Build pc)\<lparr>CreateBuildLog := b\<rparr>\<rparr>"

text \<open>
  Two worlds agree but for the build log: every file other than \<open>packages.log\<close> is the
  same in both, and the second logger's lines are the first lines of the first's.
\<close>

definition agree_but_build_log :: "world \<Rightarrow> world \<Rightarrow> bool" where
  "agree_but_build_log wT wF =
     ((\<forall>n. n \<noteq> ''packages.log'' \<longrightarrow> files wT n = files wF n) \<and> prefix (logger wF) (logger wT))"

section \<open>A staged workspace\<close>

text \<open>
  A workspace for the package \<open>foo\<close>: the program \<open>usr/bin/app\<close>, linked against musl,
  \<open>libssl.so.3\<close> and \<open>libfoo.so.2\<close>; the library \<open>usr/lib/libfoo.so.2.1\<close> with the soname
  \<open>libfoo.so.2\<close> and a symlink to it; and a pkg-config file of version \<open>1.0-rc2\<close>. The
  libraries of the system are stand-ins: the tar of the control tree is the names of its
  files, the tar of the workspace the word \<open>DATA\<close>; \<open>gzip\<close> and \<open>pgzip\<close> bracket their
  input; every signature is \<open>{SIG}\<close>; the JSON of every map is \<open>{}\<close>. No call fails.
\<close>

definition ex_app :: elf_File where
  "ex_app =
     \<lparr>Progs = [\<lparr>prog_Type = PT_LOAD, prog_ReadAll = Inr []\<rparr>,
               \<lparr>prog_Type = PT_INTERP,
                prog_ReadAll = Inr (''/lib/ld-musl-x86_64.so.1'' @ [char_of (0::nat)])\<rparr>],
      ImportedLibraries = Inr [''libssl.so.3'', ''libfoo.so.2''],
      DynString = (\<lambda>tag. if tag = DT_NEEDED then Inr [''libssl.so.3'', ''libfoo.so.2''] else Inr [])\<rparr>"

definition ex_libfoo :: elf_File where
  "ex_libfoo =
     \<lparr>Progs = [\<lparr>prog_Type = PT_LOAD, prog_ReadAll = Inr []\<rparr>],
      ImportedLibraries = Inr [''libc.musl-x86_64.so.1''],
      DynString = (\<lambda>tag. if tag = DT_SONAME then Inr [''libfoo.so.2'']
                          else if tag = DT_NEEDED then Inr [''libc.musl-x86_64.so.1'']
                          else Inr [])\<rparr>"

definition ex_entry :: "string \<Rightarrow> FileMode \<Rightarrow> walk_entry" where
  "ex_entry p m = \<lparr>path = p, walk_err = None, d_Info = Inr \<lparr>fi_Mode = m, fi_Size = 100\<rparr>\<rparr>"

definition ex_walk :: "walk_entry list" where
  "ex_walk =
     [ex_entry ''.'' (ModeDir OR 0x1ED),
      ex_entry ''usr'' (ModeDir OR 0x1ED),
      ex_entry ''usr/bin'' (ModeDir OR 0x1ED),
      ex_entry ''usr/bin/app'' 0x1ED,
      ex_entry ''usr/lib'' (ModeDir OR 0x1ED),
      ex_entry ''usr/lib/libfoo.so.2'' (ModeSymlink OR 0x1FF),
      ex_entry ''usr/lib/libfoo.so.2.1'' 0x1ED,
      ex_entry ''usr/lib/pkgconfig'' (ModeDir OR 0x1ED),
      ex_entry ''usr/lib/pkgconfig/foo.pc'' 0x1A4]"

definition ex_sys :: system where
  "ex_sys =
     \<lparr>WalkDir = (\<lambda>root. if root = ''/ws/melange-out/foo'' then ex_walk else []),
      elf_Open = (\<lambda>p. if p = ''/ws/melange-out/foo/usr/bin/app'' then Inr ex_app
                       else if p = ''/ws/melange-out/foo/usr/lib/libfoo.so.2.1'' then Inr ex_libfoo
                       else Inl (Error ''bad magic number'')),
      os_Readlink = (\<lambda>p. if p = ''/ws/melange-out/foo/usr/lib/libfoo.so.2''
                          then Inr ''libfoo.so.2.1'' else Inl (Error ''invalid argument'')),
      os_Stat = (\<lambda>p. p = ''/ws/melange-out/foo/usr/lib/libfoo.so.2.1''),
      pkgconfig_Load = (\<lambda>p. if p = ''/ws/melange-out/foo/usr/lib/pkgconfig/foo.pc''
                             then Inr \<lparr>pkg_Version = ''1.0-rc2'', Requires = [],
                                       RequiresPrivate = [], RequiresInternal = []\<rparr>
                             else Inl (Error ''no such file'')),
      os_Create = (\<lambda>p. None),
      file_Write = (\<lambda>p d. None),
      json_Marshal = (\<lambda>m. ''{}''),
      Summarize = (\<lambda>d. []),
      os_MkdirAll = (\<lambda>p. None),
      os_CreateTemp = (\<lambda>pattern. Inr ''/tmp/melange-data-1''),
      os_OpenFile_append = (\<lambda>p. None),
      file_Seek = (\<lambda>p. None),
      tarball_NewContext = (\<lambda>c. None),
      WriteTar_dir = (\<lambda>c root. Inr ''DATA''),
      WriteTar_mem = (\<lambda>c fs. Inr (concat (map fst fs))),
      memfs_WriteFile = (\<lambda>p. None),
      gzip = (\<lambda>t. ''<'' @ t @ ''>''),
      gzip_Close = (\<lambda>t. None),
      pgzip = (\<lambda>t. ''['' @ t @ '']''),
      pgzip_Close = (\<lambda>t. None),
      pgzip_SetConcurrency = (\<lambda>b n. None),
      GOMAXPROCS = 4,
      sha256_hex = (\<lambda>d. ''00''),
      EmitSignature = (\<lambda>s c t. Inr ''{SIG}'')\<rparr>"

definition ex_pc :: PackageBuild where
  "ex_pc =
     \<lparr>Build = \<lparr>Configuration = \<lparr>cfg_Package = \<lparr>Name = ''foo'', Version = ''1.0'', Epoch = 0, Copyrights = []\<rparr>,
                                 Subpackages = []\<rparr>,
               SourceDateEpoch = 0, WorkspaceDir = ''/ws'', SigningKey = [],
               SigningPassphrase = [], CreateBuildLog = False, DependencyLog = []\<rparr>,
      Origin = \<lparr>Name = ''foo'', Version = ''1.0'', Epoch = 0, Copyrights = []\<rparr>,
      PackageName = ''foo'', OriginName = ''foo'', InstalledSize = 0, DataHash = [],
      OutDir = ''/out/x86_64'',
      Dependencies = \<lparr>Runtime = [''busybox''], Provides = [], Replaces = [], ProviderPriority = 0\<rparr>,
      Arch = ''x86_64'',
      Options = \<lparr>NoProvides = False, NoDepends = False, NoCommands = False\<rparr>,
      Scriptlets = \<lparr>Trigger = \<lparr>Script = [], Paths = []\<rparr>, PreInstall = [], PostInstall = [],
                    PreDeinstall = [], PostDeinstall = [], PreUpgrade = [], PostUpgrade = []\<rparr>,
      Description = ''demo'', URL = [], Commit = []\<rparr>"

definition ex_world :: world where
  "ex_world = \<lparr>logger = [], files = Map.empty\<rparr>"


text \<open>
  A second workspace: an executable under \<open>binx/\<close> and the library under \<open>libexec/\<close>,
  neither inside one of the listed directories.
\<close>

definition ex_walk_outside :: "walk_entry list" where
  "ex_walk_outside =
     [ex_entry ''.'' (ModeDir OR 0x1ED),
      ex_entry ''binx'' (ModeDir OR 0x1ED),
      ex_entry ''binx/tool'' 0x1ED,
      ex_entry ''libexec'' (ModeDir OR 0x1ED),
      ex_entry ''libexec/libfoo.so.2.1'' 0x1ED]"

definition ex_sys_outside :: system where
  "ex_sys_outside =
     ex_sys\<lparr>WalkDir := (\<lambda>root. if root = ''/ws/melange-out/foo'' then ex_walk_outside else []),
            elf_Open := (\<lambda>p. if p = ''/ws/melange-out/foo/libexec/libfoo.so.2.1''
                              then Inr ex_libfoo else Inl (Error ''bad magic number''))\<rparr>"

text \<open>
  A fresh state of a walk; the job with a dependency log; and two systems, one that cannot
  write to a file and one that cannot create one.
\<close>

definition ex_scan :: scan where
  "ex_scan = \<lparr>generated = no_Dependencies, depends = Map.empty, log = []\<rparr>"

definition ex_pc_deplog :: PackageBuild where
  "ex_pc_deplog = ex_pc\<lparr>Build := (Build ex_pc)\<lparr>DependencyLog := ''/tmp/deps''\<rparr>\<rparr>"

definition ex_sys_write_fails :: system where
  "ex_sys_write_fails =
     ex_sys\<lparr>file_Write := (\<lambda>p d. Some (0, Error ''no space left on device''))\<rparr>"

definition ex_sys_create_fails :: system where
  "ex_sys_create_fails = ex_sys\<lparr>os_Create := (\<lambda>p. Some (Error ''permission denied''))\<rparr>"

text \<open>
  A system whose gzip writers frame their input so that it can be read back: as many
  \<open>+\<close> as the input has bytes, a bar, and the input; and the reader of that framing.
\<close>

definition ex_frame :: "string \<Rightarrow> string" where
  "ex_frame t = replicate (length t) (CHR ''+'') @ ''|'' @ t"

definition ex_next_member :: "string \<Rightarrow> (string \<times> string) option" where
  "ex_next_member s =
     (let n = length (takeWhile (\<lambda>c. c = CHR ''+'') s);
          r = drop n s
      in case r of
           [] \<Rightarrow> None
         | c # body \<Rightarrow>
             if c = CHR ''|'' \<and> n \<le> length body then Some (take n body, drop n body)
             else None)"

definition ex_sys_framed :: system where
  "ex_sys_framed =
     ex_sys\<lparr>gzip := ex_frame, pgzip := ex_frame,
            EmitSignature := (\<lambda>s c t. Inr (ex_frame ''SIG''))\<rparr>"

text \<open>The job with a signing key.\<close>

definition ex_pc_signed :: PackageBuild where
  "ex_pc_signed = ex_pc\<lparr>Build := (Build ex_pc)\<lparr>SigningKey := ''/keys/melange.rsa''\<rparr>\<rparr>"

section \<open>Properties of the library functions\<close>

subsection \<open>Split\<close>

lemma Split_from_not_Nil: "Split_from sep cur s \<noteq> []"
  by (induction sep cur s rule: Split_from.induct) auto

lemma hd_Split_from:
  "sep \<noteq> [] \<Longrightarrow> hd (Split_from sep cur s) = cur @ before_first sep s"
  by (induction s arbitrary: cur) auto

lemma Split_from_after_first:
  "sep \<noteq> [] \<Longrightarrow>
     Split_from sep cur s =
       (case after_first sep s of
          None \<Rightarrow> [cur @ s]
        | Some r \<Rightarrow> (cur @ before_first sep s) # Split_from sep [] r)"
  by (induction s arbitrary: cur) (auto split: option.splits)

lemma before_first_eq: "before_first ''='' p = dep_name p"
  by (induction p) (auto simp: dep_name_def)

lemma libver_eq: "libver soname = libver_between soname"
proof (cases "after_first ''.so.'' soname")
  case None
  then show ?thesis
    by (simp add: libver_def libver_between_def Split_def Split_from_after_first Let_def)
next
  case (Some r)
  have "length (Split_from ''.so.'' [] r) > 0"
    using Split_from_not_Nil [of "''.so.''" "[]" r] by simp
  moreover have "Split_from ''.so.'' [] r ! 0 = before_first ''.so.'' r"
    using hd_Split_from [of "''.so.''" "[]" r] Split_from_not_Nil [of "''.so.''" "[]" r]
    by (simp add: hd_conv_nth)
  ultimately show ?thesis using Some
    by (simp add: libver_def libver_between_def Split_def Let_def
        Split_from_after_first [of "''.so.''" "[]" soname])
qed

subsection \<open>Version rewrite\<close>

lemma match_Some:
  "pkgConfigVersionRegexp_match s = Some g \<Longrightarrow>
     \<exists>t. s = CHR ''-'' # t \<and> prefix g t \<and> g \<in> {''alpha'', ''beta'', ''rc'', ''pre''}"
  by (auto simp: pkgConfigVersionRegexp_match_def split: list.splits if_splits)

lemma match_None_iff:
  "pkgConfigVersionRegexp_match (c # cs) = None \<longleftrightarrow> \<not> (c = CHR ''-'' \<and> version_word_at cs)"
  by (auto simp: pkgConfigVersionRegexp_match_def version_word_at_def)

lemma match_no_dash: "c \<noteq> CHR ''-'' \<Longrightarrow> pkgConfigVersionRegexp_match (c # cs) = None"
  by (simp add: pkgConfigVersionRegexp_match_def)

lemma ReplaceAllString_word:
  "g \<in> {''alpha'', ''beta'', ''rc'', ''pre''} \<Longrightarrow>
     ReplaceAllString (g @ rest) = g @ ReplaceAllString rest"
  by (auto simp: match_no_dash)

lemma ReplaceAllString_step:
  "ReplaceAllString (c # cs) =
     (if c = CHR ''-'' \<and> version_word_at cs then CHR ''_'' else c) # ReplaceAllString cs"
proof (cases "pkgConfigVersionRegexp_match (c # cs)")
  case None
  then show ?thesis using match_None_iff [of c cs] by simp
next
  case (Some g)
  from match_Some [OF Some] have c: "c = CHR ''-''" and p: "prefix g cs"
    and g: "g \<in> {''alpha'', ''beta'', ''rc'', ''pre''}" by auto
  from p obtain rest where cs: "cs = g @ rest" by (auto simp: prefix_def)
  from Some have "c = CHR ''-'' \<and> version_word_at cs"
    using match_None_iff [of c cs] by auto
  moreover have "ReplaceAllString (c # cs) = ''_'' @ g @ ReplaceAllString (drop (length g) cs)"
    using Some by simp
  moreover have "g @ ReplaceAllString (drop (length g) cs) = ReplaceAllString cs"
    using ReplaceAllString_word [OF g, of rest] by (simp add: cs)
  ultimately show ?thesis by simp
qed

lemma ReplaceAllString_rewrite_every: "ReplaceAllString v = rewrite_every v"
  by (induction v) (simp_all add: ReplaceAllString_step del: ReplaceAllString.simps(2))

subsection \<open>Base of a .pc path\<close>

lemma Base_pc:
  assumes "HasSuffix p ''.pc''"
  shows "\<exists>name. Base p = name @ ''.pc''"
proof -
  from assms obtain q where p: "p = q @ ''.pc''" by (auto simp: HasSuffix_def suffix_def)
  have "Base p = rev (takeWhile (\<lambda>c. c \<noteq> CHR ''/'') (rev q)) @ ''.pc''"
    by (simp add: p Base_def Let_def)
  then show ?thesis by blast
qed

lemma CutSuffix_append: "fst (CutSuffix (name @ sfx) sfx) = name"
  by (simp add: CutSuffix_def HasSuffix_def suffix_def)

section \<open>Properties of the dependency scanner\<close>

subsection \<open>dedup and the self-provides filter\<close>

lemma dedup_loop_out: "dedup_loop prev out xs = out @ dedup_loop prev [] xs"
proof (induction xs arbitrary: prev out)
  case Nil
  show ?case by simp
next
  case (Cons cur rest)
  show ?case
  proof (cases "cur = prev")
    case True
    with Cons.IH [of prev out] show ?thesis by simp
  next
    case False
    with Cons.IH [of cur "out @ [cur]"] Cons.IH [of cur "[cur]"] show ?thesis by simp
  qed
qed

lemma dedup_loop_Cons:
  "dedup_loop prev [] (cur # rest) =
     (if cur = prev then dedup_loop prev [] rest else cur # dedup_loop cur [] rest)"
  using dedup_loop_out [of cur "[cur]" rest] by simp

lemma dedup_loop_strict:
  "sorted xs \<Longrightarrow> \<forall>x\<in>set xs. prev \<le> x \<Longrightarrow>
     sorted_wrt (<) (dedup_loop prev [] xs) \<and> (\<forall>y\<in>set (dedup_loop prev [] xs). prev < y)"
proof (induction xs arbitrary: prev)
  case Nil
  show ?case by simp
next
  case (Cons cur rest)
  show ?case
  proof (cases "cur = prev")
    case True
    with Cons show ?thesis by (simp add: dedup_loop_Cons del: dedup_loop.simps)
  next
    case False
    from Cons.prems have "sorted rest" "\<forall>x\<in>set rest. cur \<le> x" by auto
    from Cons.IH [OF this]
    have ih: "sorted_wrt (<) (dedup_loop cur [] rest)" "\<forall>y\<in>set (dedup_loop cur [] rest). cur < y"
      by auto
    from Cons.prems False have "prev < cur" by auto
    with ih False show ?thesis
      by (auto simp add: dedup_loop_Cons simp del: dedup_loop.simps)
  qed
qed

lemma set_dedup_loop_eq:
  "sorted xs \<Longrightarrow> \<forall>x\<in>set xs. prev \<le> x \<Longrightarrow> set (dedup_loop prev [] xs) = set xs - {prev}"
proof (induction xs arbitrary: prev)
  case Nil
  show ?case by simp
next
  case (Cons cur rest)
  show ?case
  proof (cases "cur = prev")
    case True
    with Cons show ?thesis by (auto simp add: dedup_loop_Cons simp del: dedup_loop.simps)
  next
    case False
    from Cons.prems have "sorted rest" "\<forall>x\<in>set rest. cur \<le> x" by auto
    from Cons.IH [OF this] have ih: "set (dedup_loop cur [] rest) = set rest - {cur}" .
    from Cons.prems False have "prev < cur" by auto
    with Cons.prems have "prev \<notin> set rest" by auto
    with ih False show ?thesis
      by (auto simp add: dedup_loop_Cons simp del: dedup_loop.simps)
  qed
qed

lemma sorted_wrt_dedup: "sorted_wrt (<) (dedup xs)"
  using dedup_loop_strict [of "sort xs" "[]"] by (simp add: dedup_def)

lemma set_dedup: "set (dedup xs) = set xs - {[]}"
  using set_dedup_loop_eq [of "sort xs" "[]"] by (simp add: dedup_def)

lemma newRuntimeDeps_loop_filter:
  "newRuntimeDeps_loop m acc xs = acc @ filter (\<lambda>d. m d = None) xs"
  by (induction xs arbitrary: acc) (auto split: option.splits)

lemma dom_providedDepsMap_loop:
  "dom (providedDepsMap_loop ps m) = dom m \<union> dep_name ` set ps"
proof (induction ps arbitrary: m)
  case Nil
  show ?case by simp
next
  case (Cons p ps)
  have "hd (Split p ''='') = dep_name p"
    by (simp add: Split_def hd_Split_from before_first_eq)
  then have "providedDepsMap_loop (p # ps) m = providedDepsMap_loop ps (m(dep_name p \<mapsto> True))"
    by simp
  then have "dom (providedDepsMap_loop (p # ps) m) = dom (m(dep_name p \<mapsto> True)) \<union> dep_name ` set ps"
    by (simp only: Cons.IH)
  then show ?case by simp
qed

lemma removeSelfProvidedDeps_filter:
  "removeSelfProvidedDeps rs ps = filter (\<lambda>d. d \<notin> dep_name ` set ps) rs"
proof -
  have "(providedDepsMap_loop ps Map.empty d = None) = (d \<notin> dep_name ` set ps)" for d
  proof -
    have "(providedDepsMap_loop ps Map.empty d = None)
        = (d \<notin> dom (providedDepsMap_loop ps Map.empty))"
      by (simp add: domIff)
    then show ?thesis by (simp add: dom_providedDepsMap_loop)
  qed
  then show ?thesis
    by (simp add: removeSelfProvidedDeps_def newRuntimeDeps_loop_filter)
qed

lemma GenerateDependencies_ok:
  "GenerateDependencies sys pc w = (w', pc', None) \<Longrightarrow>
     \<exists>gen. pc' = pc\<lparr>Dependencies := merge_Dependencies (Dependencies pc) gen\<rparr>"
  by (auto simp: GenerateDependencies_def Let_def split: prod.splits option.splits)

lemma Runtime_merge:
  "Runtime (merge_Dependencies d g) =
     removeSelfProvidedDeps (dedup (Runtime d @ Runtime g)) (dedup (Provides d @ Provides g))"
  by (simp add: merge_Dependencies_def Let_def)

lemma Provides_merge:
  "Provides (merge_Dependencies d g) = dedup (Provides d @ Provides g)"
  by (simp add: merge_Dependencies_def Let_def)

subsection \<open>The walk functions\<close>

lemma ModeSymlink_not_0: "ModeSymlink \<noteq> 0"
  by (simp add: ModeSymlink_def)

lemma IsRegular_not_Symlink: "IsRegular m \<Longrightarrow> Type m AND ModeSymlink \<noteq> ModeSymlink"
  using ModeSymlink_not_0 by (simp add: IsRegular_def Type_def)

lemma allowedPrefix_iff: "allowedPrefix p pfxs = list_ex (\<lambda>pfx. prefix pfx p) pfxs"
  by (induction pfxs) (auto simp: HasPrefix_def)

lemma allowedPrefix_dir:
  "d \<in> set pfxs \<Longrightarrow> prefix (d @ ''/'') p \<Longrightarrow> allowedPrefix p pfxs"
  by (auto simp: allowedPrefix_iff list_ex_iff dest: append_prefixD)

lemma pcWalkFn_provides:
  assumes "walk_err e = None" and "HasSuffix (path e) ''.pc''" and "d_Info e = Inr fi"
    and "Type (fi_Mode fi) AND ModeSymlink \<noteq> ModeSymlink"
    and "pkgconfig_Load sys (Join [WorkspaceSubdir pc, path e]) = Inr pkg"
    and "\<not> NoProvides (Options pc)"
  shows "pcWalkFn sys pc e st = (add_Provides [pc_entry (path e) (pkg_Version pkg)] st, None)"
  using assms by (simp add: pcWalkFn_def generateRuntimePkgConfigDeps_def)

lemma soExecutable_provides:
  assumes "elf_Open sys (Join [WorkspaceSubdir pc, path e]) = Inr ef"
    and "findInterpreter ef = Inr interp"
    and "interp = [] \<or> HasPrefix (Base (path e)) ''libc''"
    and "ImportedLibraries ef = Inr libs"
    and "DynString ef DT_SONAME = Inr sonames"
    and "\<not> NoProvides (Options pc)"
    and "allowedPrefix (path e) libDirs"
  shows "\<exists>st'. soExecutable sys pc e st = (st', None)
           \<and> Provides (generated st') = Provides (generated st) @ map soname_entry sonames"
  using assms
  by (auto simp: soExecutable_def soProvides_def Let_def add_Provides_def add_Runtime_def say_def)

lemma soWalkFn_executable:
  assumes "walk_err e = None" and "d_Info e = Inr fi" and "IsRegular (fi_Mode fi)"
    and "Perm (fi_Mode fi) AND 0x16D = 0x16D"
  shows "soWalkFn sys pc e st = soExecutable sys pc e st"
  using assms IsRegular_not_Symlink [OF assms(3)] by (simp add: soWalkFn_def)

lemma sublist_append_after: "sublist xs zs \<Longrightarrow> sublist xs (ys @ zs)"
  unfolding sublist_def by (metis append.assoc)

lemma ReplaceAll_from_absent:
  "\<not> sublist old s \<Longrightarrow> ReplaceAll_from old new s = s"
proof (induction s)
  case Nil
  show ?case by simp
next
  case (Cons c cs)
  from Cons.prems have "\<not> prefix old (c # cs)" and "\<not> sublist old cs"
    by (auto simp: sublist_Cons_right)
  with Cons.IH show ?case by simp
qed

lemma interpName_ld_musl:
  "Base interp = ''ld-musl'' @ rest \<Longrightarrow>
     interpName interp = ''so:libc.musl'' @ ReplaceAll rest ''so:ld-musl'' ''so:libc.musl''"
  by (simp add: interpName_def ReplaceAll_def)

lemma interpName_prefix_agree:
  assumes "\<not> sublist ''so:ld-musl'' (tl (''so:'' @ Base interp))"
  shows "interpName interp = interpName_prefix interp"
proof (cases "prefix ''so:ld-musl'' (''so:'' @ Base interp)")
  case True
  then obtain rest where r: "''so:'' @ Base interp = ''so:ld-musl'' @ rest"
    by (auto simp: prefix_def)
  then have "tl (''so:'' @ Base interp) = ''o:ld-musl'' @ rest" by simp
  with assms have "\<not> sublist ''so:ld-musl'' (''o:ld-musl'' @ rest)" by simp
  then have "\<not> sublist ''so:ld-musl'' rest"
    using sublist_append_after [of "''so:ld-musl''" rest "''o:ld-musl''"] by blast
  then have "ReplaceAll_from ''so:ld-musl'' ''so:libc.musl'' rest = rest"
    by (rule ReplaceAll_from_absent)
  then have "ReplaceAll_from ''so:ld-musl'' ''so:libc.musl'' (''so:ld-musl'' @ rest) = ''so:libc.musl'' @ rest"
    by simp
  then show ?thesis using True r
    by (simp add: interpName_def interpName_prefix_def ReplaceAll_def del: ReplaceAll_from.simps)
next
  case False
  have "ReplaceAll_from ''so:ld-musl'' ''so:libc.musl'' (''so:'' @ Base interp)
      = CHR ''s'' # ReplaceAll_from ''so:ld-musl'' ''so:libc.musl'' (tl (''so:'' @ Base interp))"
    using False by simp
  also have "\<dots> = ''so:'' @ Base interp"
    using ReplaceAll_from_absent [OF assms, of "''so:libc.musl''"] by simp
  finally show ?thesis using False
    by (simp add: interpName_def interpName_prefix_def ReplaceAll_def del: ReplaceAll_from.simps)
qed

lemma soExecutable_interp:
  assumes "elf_Open sys (Join [WorkspaceSubdir pc, path e]) = Inr ef"
    and "findInterpreter ef = Inr interp"
    and "interp \<noteq> []" and "\<not> NoDepends (Options pc)"
  shows "\<exists>st'. soExecutable sys pc e st = (st', None)
           \<and> prefix (Runtime (generated st) @ [interpName interp]) (Runtime (generated st'))"
  using assms
  by (auto simp: soExecutable_def soProvides_def Let_def add_Provides_def add_Runtime_def say_def
      split: sum.splits)

subsection \<open>The dependency log\<close>

lemma writeDependencyLog_create_fails:
  "os_Create sys (dependency_log_name pc) = Some err \<Longrightarrow>
     Warnf (''Unable to open dependency log: '' @ Error_msg err)
       \<in> set (logger (fst (writeDependencyLog sys pc deps w)))
     \<and> snd (writeDependencyLog sys pc deps w) = Some ErrInvalid"
  by (simp add: writeDependencyLog_def Let_def)

lemma writeDependencyLog_write:
  "os_Create sys (dependency_log_name pc) = None \<Longrightarrow>
     snd (writeDependencyLog sys pc deps w) =
       (case file_Write sys (dependency_log_name pc) (json_Marshal sys deps @ [CHR 0x0A]) of
          None \<Rightarrow> None
        | Some (n, err) \<Rightarrow> Some err)"
  by (simp add: writeDependencyLog_def write_file_def Let_def split: option.splits)

lemma generateSharedObjectNameDeps_log:
  fixes sys pc gen w
  defines "r \<equiv> run_walk sys pc (soWalkFn sys pc)
                 \<lparr>generated = gen, depends = Map.empty,
                  log = logger w @ [Printf ''scanning for shared object dependencies...'']\<rparr>"
  assumes "DependencyLog (Build pc) \<noteq> []" and "snd r = None"
  shows "generateSharedObjectNameDeps sys pc gen w =
           (fst (writeDependencyLog sys pc (depends (fst r)) (w\<lparr>logger := log (fst r)\<rparr>)),
            generated (fst r),
            snd (writeDependencyLog sys pc (depends (fst r)) (w\<lparr>logger := log (fst r)\<rparr>)))"
  using assms(2,3) unfolding r_def by (simp add: generateSharedObjectNameDeps_def Let_def)

lemma dependency_log_create_failure:
  assumes "DependencyLog (Build pc) \<noteq> []"
    and "snd (run_walk sys pc (soWalkFn sys pc)
           \<lparr>generated = gen, depends = Map.empty,
            log = logger w @ [Printf ''scanning for shared object dependencies...'']\<rparr>) = None"
    and "os_Create sys (dependency_log_name pc) = Some err"
  shows "snd (snd (generateSharedObjectNameDeps sys pc gen w)) = Some ErrInvalid"
  using generateSharedObjectNameDeps_log [OF assms(1,2)]
    writeDependencyLog_create_fails [OF assms(3)]
  by auto

section \<open>Properties of the package assembler\<close>

subsection \<open>File names\<close>

lemma Filename_last: "last (Filename pc) = CHR ''k''"
  by (simp add: Filename_def)

lemma Filename_not_temp: "Filename pc \<noteq> stem @ ''.tar.gz''"
proof
  assume "Filename pc = stem @ ''.tar.gz''"
  then have "last (Filename pc) = last (stem @ ''.tar.gz'')" by simp
  then show False by (simp add: Filename_last)
qed

lemma Join_packages_log: "Join [[], ''packages.log''] = ''packages.log''"
  by code_simp

lemma Filename_not_log: "Filename pc \<noteq> ''packages.log''"
proof
  assume "Filename pc = ''packages.log''"
  then have "last (Filename pc) = last ''packages.log''" by simp
  then show False by (simp add: Filename_last)
qed

lemma temp_not_log: "stem @ ''.tar.gz'' \<noteq> ''packages.log''"
proof
  assume "stem @ ''.tar.gz'' = ''packages.log''"
  then have "last (stem @ ''.tar.gz'') = last ''packages.log''" by simp
  then show False by simp
qed

subsection \<open>Writing files\<close>

lemma write_file_other:
  "n \<noteq> name \<Longrightarrow> files (fst (write_file sys name d w)) n = files w n"
  by (simp add: write_file_def append_file_def split: option.splits prod.splits)

lemma write_file_logger: "logger (fst (write_file sys name d w)) = logger w"
  by (simp add: write_file_def append_file_def split: option.splits prod.splits)

lemma write_file_ok:
  "write_file sys name d w = (w', None) \<Longrightarrow> w' = append_file name d w"
  by (auto simp: write_file_def split: option.splits prod.splits)

lemma combine_ok:
  assumes "combine sys out rs w = (w', None)"
    and "\<forall>n. FileReader n \<in> set rs \<longrightarrow> n \<noteq> out"
    and "files w out = Some b0"
  shows "files w' out = Some (b0 @ concat (map (\<lambda>r. read_all r w) rs))
         \<and> (\<forall>n. n \<noteq> out \<longrightarrow> files w' n = files w n) \<and> logger w' = logger w"
  using assms
proof (induction rs arbitrary: w b0)
  case Nil
  then show ?case by auto
next
  case (Cons r rs)
  from Cons.prems(1) obtain w1 where
    1: "write_file sys out (read_all r w) w = (w1, None)" and 2: "combine sys out rs w1 = (w', None)"
    by (auto split: prod.splits option.splits)
  from write_file_ok [OF 1] have w1: "w1 = append_file out (read_all r w) w" .
  have same: "read_all r' w1 = read_all r' w" if "r' \<in> set rs" for r'
  proof (cases r')
    case (BytesReader b)
    then show ?thesis by simp
  next
    case (FileReader n)
    with that Cons.prems(2) have "n \<noteq> out" by auto
    with FileReader show ?thesis by (simp add: w1 append_file_def)
  qed
  from Cons.prems(2) have 3: "\<forall>n. FileReader n \<in> set rs \<longrightarrow> n \<noteq> out" by auto
  have 4: "files w1 out = Some (b0 @ read_all r w)"
    using Cons.prems(3) by (simp add: w1 append_file_def)
  have meq: "map (\<lambda>r. read_all r w1) rs = map (\<lambda>r. read_all r w) rs"
    using same by (simp cong: map_cong)
  have l: "logger w1 = logger w" by (simp add: w1 append_file_def)
  have o: "files w1 n = files w n" if "n \<noteq> out" for n
    using that by (simp add: w1 append_file_def)
  from Cons.IH [OF 2 3 4]
  have ih: "files w' out = Some ((b0 @ read_all r w) @ concat (map (\<lambda>r. read_all r w1) rs))"
    "\<forall>n. n \<noteq> out \<longrightarrow> files w' n = files w1 n" "logger w' = logger w1"
    by simp_all
  show ?case
    using ih o by (simp add: meq l)
qed

lemma AppendBuildLog_unset:
  "\<not> CreateBuildLog (Build pc) \<Longrightarrow> AppendBuildLog sys pc dir w = (w, None)"
  by (simp add: AppendBuildLog_def)

lemma AppendBuildLog_other:
  "n \<noteq> Join [dir, ''packages.log''] \<Longrightarrow> files (fst (AppendBuildLog sys pc dir w)) n = files w n"
  by (simp add: AppendBuildLog_def write_file_other append_file_def split: option.splits)

lemma AppendBuildLog_logger: "logger (fst (AppendBuildLog sys pc dir w)) = logger w"
  by (simp add: AppendBuildLog_def write_file_logger append_file_def split: option.splits)

lemma logf_files [simp]: "files (logf l w) = files w"
  by (simp add: logf_def)

lemma writePackage_ok:
  assumes "snd (writePackage sys pc rs w) = None"
    and "\<forall>n. FileReader n \<in> set rs \<longrightarrow> n \<noteq> Filename pc"
  shows "files (fst (writePackage sys pc rs w)) (Filename pc) =
           Some (concat (map (\<lambda>r. read_all r (w\<lparr>files := (files w)(Filename pc \<mapsto> [])\<rparr>)) rs))"
proof -
  let ?w0 = "w\<lparr>files := (files w)(Filename pc \<mapsto> [])\<rparr>"
  obtain w1 e1 where c: "combine sys (Filename pc) rs ?w0 = (w1, e1)"
    by (cases "combine sys (Filename pc) rs ?w0")
  let ?a = "AppendBuildLog sys pc [] (logf (Printf (''wrote '' @ Filename pc)) w1)"
  from assms(1) c have m: "os_MkdirAll sys (OutDir pc) = None"
    and o: "os_Create sys (Filename pc) = None" and e1: "e1 = None"
    by (auto simp: writePackage_def split: option.splits prod.splits)
  have "files (fst (writePackage sys pc rs w)) (Filename pc) = files (fst ?a) (Filename pc)"
    by (cases ?a) (auto simp: writePackage_def m o c e1 split: option.splits)
  also have "\<dots> = files w1 (Filename pc)"
    using AppendBuildLog_other [of "Filename pc" "[]" sys pc] Filename_not_log [of pc]
    by (simp add: Join_packages_log)
  also have "\<dots> = Some (concat (map (\<lambda>r. read_all r ?w0) rs))"
    using combine_ok [OF c [unfolded e1] assms(2), of "[]"] by simp
  finally show ?thesis .
qed

subsection \<open>The sections\<close>

lemma emitDataSection_ok:
  assumes "emitDataSection sys pc tmp w = (w', pc', None)"
  shows "\<exists>t. WriteTar_dir sys (data_TarContext pc) (WorkspaceSubdir pc) = Inr t
           \<and> pc' = pc\<lparr>DataHash := sha256_hex sys (pgzip sys t)\<rparr>
           \<and> files w' = files (append_file tmp (pgzip sys t) w)"
  using assms
  by (auto simp: emitDataSection_def Let_def split: option.splits sum.splits)

lemma generateControlSection_ok:
  assumes "generateControlSection sys pc = Inr c"
  shows "\<exists>t. WriteTar_mem sys (control_TarContext pc) (control_files pc) = Inr t \<and> c = gzip sys t"
  using assms
  by (auto simp: generateControlSection_def split: option.splits sum.splits)

lemma emitSections_ok:
  assumes "snd (emitSections sys pc tmp w) = (pc', None)" and "tmp \<noteq> Filename pc"
    and "files w tmp = Some []"
  shows "\<exists>ctar dtar sig.
           WriteTar_mem sys (control_TarContext pc') (control_files pc') = Inr ctar
         \<and> WriteTar_dir sys (data_TarContext pc) (WorkspaceSubdir pc) = Inr dtar
         \<and> (if wantSignature pc
              then EmitSignature sys (Signer pc) (gzip sys ctar) (SourceDateEpoch (Build pc)) = Inr sig
              else sig = [])
         \<and> pc' = pc\<lparr>DataHash := sha256_hex sys (pgzip sys dtar)\<rparr>
         \<and> files (fst (emitSections sys pc tmp w)) (Filename pc)
             = Some (sig @ gzip sys ctar @ pgzip sys dtar)"
proof -
  obtain w1 pc1 e1 where d: "emitDataSection sys pc tmp w = (w1, pc1, e1)"
    by (cases "emitDataSection sys pc tmp w")
  from assms(1) have e1: "e1 = None"
    by (cases e1) (simp_all add: emitSections_def d)
  note d = d [unfolded e1]
  from assms(1) obtain c where g: "generateControlSection sys pc1 = Inr c"
    by (cases "generateControlSection sys pc1") (simp_all add: emitSections_def d)
  from emitDataSection_ok [OF d] obtain dtar where
    dt: "WriteTar_dir sys (data_TarContext pc) (WorkspaceSubdir pc) = Inr dtar"
    and pc1: "pc1 = pc\<lparr>DataHash := sha256_hex sys (pgzip sys dtar)\<rparr>"
    and fw1: "files w1 = files (append_file tmp (pgzip sys dtar) w)"
    by blast
  from generateControlSection_ok [OF g] obtain ctar where
    ct: "WriteTar_mem sys (control_TarContext pc1) (control_files pc1) = Inr ctar"
    and c: "c = gzip sys ctar"
    by blast
  have same: "wantSignature pc1 = wantSignature pc" "Signer pc1 = Signer pc"
    "Filename pc1 = Filename pc" "Build pc1 = Build pc"
    by (simp_all add: pc1 wantSignature_def Signer_def Filename_def Identity_def version_release_def)
  have tmpdata: "read_all (FileReader tmp) (w1\<lparr>files := (files w1)(Filename pc \<mapsto> [])\<rparr>) = pgzip sys dtar"
    using assms(2,3) by (simp add: fw1 append_file_def)
  show ?thesis
  proof (cases "wantSignature pc")
    case True
    with assms(1) obtain sig where
      s: "EmitSignature sys (Signer pc) c (SourceDateEpoch (Build pc)) = Inr sig"
      by (cases "EmitSignature sys (Signer pc) c (SourceDateEpoch (Build pc))")
        (simp_all add: emitSections_def d g same)
    let ?rs = "[BytesReader sig, BytesReader c, FileReader tmp]"
    have r: "emitSections sys pc tmp w
        = (fst (writePackage sys pc1 ?rs w1), pc1, snd (writePackage sys pc1 ?rs w1))"
      using True by (simp add: emitSections_def d g same s Let_def)
    with assms(1) have ok: "snd (writePackage sys pc1 ?rs w1) = None" and pc': "pc' = pc1"
      by auto
    have nf: "\<forall>n. FileReader n \<in> set ?rs \<longrightarrow> n \<noteq> Filename pc1"
      using assms(2) same by simp
    from writePackage_ok [OF ok nf] tmpdata same
    have "files (fst (writePackage sys pc1 ?rs w1)) (Filename pc) = Some (sig @ c @ pgzip sys dtar)"
      by simp
    with True s ct dt pc1 pc' c r show ?thesis by auto
  next
    case False
    let ?rs = "[BytesReader c, FileReader tmp]"
    have r: "emitSections sys pc tmp w
        = (fst (writePackage sys pc1 ?rs w1), pc1, snd (writePackage sys pc1 ?rs w1))"
      using False by (simp add: emitSections_def d g same Let_def)
    with assms(1) have ok: "snd (writePackage sys pc1 ?rs w1) = None" and pc': "pc' = pc1"
      by auto
    have nf: "\<forall>n. FileReader n \<in> set ?rs \<longrightarrow> n \<noteq> Filename pc1"
      using assms(2) same by simp
    from writePackage_ok [OF ok nf] tmpdata same
    have "files (fst (writePackage sys pc1 ?rs w1)) (Filename pc) = Some (c @ pgzip sys dtar)"
      by simp
    with False ct dt pc1 pc' c r show ?thesis by auto
  qed
qed

lemma calculateInstalledSize_ok:
  "calculateInstalledSize sys pc = (pc', e) \<Longrightarrow> \<exists>n. pc' = pc\<lparr>InstalledSize := n\<rparr>"
  by (auto simp: calculateInstalledSize_def split: prod.splits option.splits)

lemma EmitPackage_ok:
  assumes "EmitPackage sys pc w = (w', pc', None)"
  shows "\<exists>ctar dtar sig.
           WriteTar_mem sys (control_TarContext pc) (control_files pc') = Inr ctar
         \<and> WriteTar_dir sys (data_TarContext pc) (WorkspaceSubdir pc) = Inr dtar
         \<and> (if wantSignature pc
              then EmitSignature sys (Signer pc) (gzip sys ctar) (SourceDateEpoch (Build pc)) = Inr sig
              else sig = [])
         \<and> DataHash pc' = sha256_hex sys (pgzip sys dtar)
         \<and> files w' (Filename pc) = Some (sig @ gzip sys ctar @ pgzip sys dtar)"
proof -
  let ?w0 = "logf (Printf (''generating package '' @ Identity pc)) w"
  from assms have m: "os_MkdirAll sys (WorkspaceSubdir pc) = None"
    by (cases "os_MkdirAll sys (WorkspaceSubdir pc)") (simp_all add: EmitPackage_def)
  obtain w1 pc1 e1 where gd: "GenerateDependencies sys pc ?w0 = (w1, pc1, e1)"
    by (cases "GenerateDependencies sys pc ?w0")
  from assms have e1: "e1 = None"
    by (cases e1) (simp_all add: EmitPackage_def m gd [simplified])
  note gd = gd [unfolded e1]
  obtain pc2 e2 where ci: "calculateInstalledSize sys pc1 = (pc2, e2)"
    by (cases "calculateInstalledSize sys pc1")
  from assms have e2: "e2 = None"
    by (cases e2) (simp_all add: EmitPackage_def m gd [simplified] ci)
  note ci = ci [unfolded e2]
  from assms obtain stem where ct: "os_CreateTemp sys ''melange-data-*.tar.gz'' = Inr stem"
    by (cases "os_CreateTemp sys ''melange-data-*.tar.gz''")
      (simp_all add: EmitPackage_def m gd [simplified] ci CreateTemp_def)
  let ?tmp = "stem @ ''.tar.gz''"
  let ?w2 = "logf (Printf (''  installed-size: '' @ show_int (sint (InstalledSize pc2)))) w1"
  let ?r = "emitSections sys pc2 ?tmp (?w2\<lparr>files := (files ?w2)(?tmp \<mapsto> [])\<rparr>)"
  have ep: "EmitPackage sys pc w = ((fst ?r)\<lparr>files := (files (fst ?r))(?tmp := None)\<rparr>, snd ?r)"
    by (simp add: EmitPackage_def m gd [simplified] ci ct [simplified] CreateTemp_def Let_def)
  with assms have es: "snd ?r = (pc', None)"
    and w': "w' = (fst ?r)\<lparr>files := (files (fst ?r))(?tmp := None)\<rparr>"
    by simp_all
  from GenerateDependencies_ok [OF gd] obtain gen where
    pc1: "pc1 = pc\<lparr>Dependencies := merge_Dependencies (Dependencies pc) gen\<rparr>" ..
  from calculateInstalledSize_ok [OF ci] obtain n where pc2: "pc2 = pc1\<lparr>InstalledSize := n\<rparr>" ..
  have same: "wantSignature pc2 = wantSignature pc" "Signer pc2 = Signer pc"
    "Filename pc2 = Filename pc" "Build pc2 = Build pc" "WorkspaceSubdir pc2 = WorkspaceSubdir pc"
    "data_TarContext pc2 = data_TarContext pc"
    by (simp_all add: pc1 pc2 wantSignature_def Signer_def Filename_def Identity_def
        version_release_def WorkspaceSubdir_def data_TarContext_def)
  have ne: "?tmp \<noteq> Filename pc2"
    using Filename_not_temp [of pc2 stem] by simp
  have f0: "files (?w2\<lparr>files := (files ?w2)(?tmp \<mapsto> [])\<rparr>) ?tmp = Some []"
    by simp
  from emitSections_ok [OF es ne f0] obtain ctar dtar sig where
    r: "WriteTar_mem sys (control_TarContext pc') (control_files pc') = Inr ctar"
      "WriteTar_dir sys (data_TarContext pc2) (WorkspaceSubdir pc2) = Inr dtar"
      "if wantSignature pc2
         then EmitSignature sys (Signer pc2) (gzip sys ctar) (SourceDateEpoch (Build pc2)) = Inr sig
         else sig = []"
      "pc' = pc2\<lparr>DataHash := sha256_hex sys (pgzip sys dtar)\<rparr>"
      "files (fst ?r) (Filename pc2) = Some (sig @ gzip sys ctar @ pgzip sys dtar)"
    by blast
  have c: "control_TarContext pc' = control_TarContext pc"
    by (simp add: r(4) pc2 pc1 control_TarContext_def)
  have f: "files w' (Filename pc) = files (fst ?r) (Filename pc2)"
    using ne by (simp add: w' same)
  have h: "DataHash pc' = sha256_hex sys (pgzip sys dtar)"
    by (simp add: r(4))
  have 1: "WriteTar_mem sys (control_TarContext pc) (control_files pc') = Inr ctar"
    using r(1) c by simp
  have 2: "WriteTar_dir sys (data_TarContext pc) (WorkspaceSubdir pc) = Inr dtar"
    using r(2) same by simp
  have 3: "if wantSignature pc
      then EmitSignature sys (Signer pc) (gzip sys ctar) (SourceDateEpoch (Build pc)) = Inr sig
      else sig = []"
    using r(3) by (simp add: same split: if_splits)
  have 5: "files w' (Filename pc) = Some (sig @ gzip sys ctar @ pgzip sys dtar)"
    using f r(5) by simp
  from 1 2 3 h 5 show ?thesis by blast
qed

subsection \<open>Reading the members back\<close>

lemma reads_members_not_Nil:
  assumes "reads_members_of next_member gz"
  shows "gz t \<noteq> []"
proof
  assume e: "gz t = []"
  let ?t' = "CHR ''x'' # t"
  from assms have 1: "next_member (gz t @ gz ?t' @ []) = Some (t, gz ?t' @ [])"
    and 2: "next_member (gz ?t' @ []) = Some (?t', [])"
    unfolding reads_members_of_def by blast+
  from 1 e have "next_member (gz ?t' @ []) = Some (t, gz ?t' @ [])" by simp
  with 2 show False by simp
qed

lemma read_members_step:
  assumes "reads_members_of next_member gz"
  shows "read_members next_member (Suc n) (gz t @ rest) =
           (case read_members next_member n rest of None \<Rightarrow> None | Some ps \<Rightarrow> Some (t # ps))"
proof -
  from reads_members_not_Nil [OF assms, of t] obtain c cs where c: "gz t @ rest = c # cs"
    by (cases "gz t @ rest") auto
  from assms have "next_member (gz t @ rest) = Some (t, rest)"
    unfolding reads_members_of_def by blast
  then show ?thesis
    unfolding c by simp
qed

lemma read_members_Nil: "read_members next_member n [] = Some []"
  by simp

lemma read_two_members:
  assumes "reads_members_of next_member gz1" and "reads_members_of next_member gz2"
  shows "read_members next_member (Suc (Suc n)) (gz1 a @ gz2 b) = Some [a, b]"
  using read_members_step [OF assms(1), of "Suc n" a "gz2 b"]
    read_members_step [OF assms(2), of n b "[]"]
  by simp

lemma read_three_members:
  assumes "reads_members_of next_member gz1" and "reads_members_of next_member gz2"
  shows "read_members next_member (Suc (Suc (Suc n))) (gz1 s @ gz1 a @ gz2 b) = Some [s, a, b]"
  using read_members_step [OF assms(1), of "Suc (Suc n)" s "gz1 a @ gz2 b"]
    read_two_members [OF assms, of n a b]
  by simp

lemma takeWhile_replicate_stop:
  "P x \<Longrightarrow> \<not> P y \<Longrightarrow> takeWhile P (replicate n x @ y # ys) = replicate n x"
  by (induction n) simp_all

lemma ex_next_member_frame: "reads_members_of ex_next_member ex_frame"
  unfolding reads_members_of_def
proof (intro allI)
  fix t rest
  have "takeWhile (\<lambda>c. c = CHR ''+'') (ex_frame t @ rest) = replicate (length t) (CHR ''+'')"
    using takeWhile_replicate_stop [of "\<lambda>c. c = CHR ''+''" "CHR ''+''" "CHR ''|''" "length t" "t @ rest"]
    by (simp add: ex_frame_def)
  then show "ex_next_member (ex_frame t @ rest) = Some (t, rest)"
    by (simp add: ex_next_member_def ex_frame_def Let_def)
qed

subsection \<open>The create-build-log flag\<close>

lemma with_CreateBuildLog_twice [simp]:
  "with_CreateBuildLog b (with_CreateBuildLog b' pc) = with_CreateBuildLog b pc"
  by (simp add: with_CreateBuildLog_def)

lemma with_CreateBuildLog_same:
  "CreateBuildLog (Build pc) = b \<Longrightarrow> with_CreateBuildLog b pc = pc"
  by (auto simp: with_CreateBuildLog_def)

lemma flag_fields:
  "PackageName (with_CreateBuildLog b pc) = PackageName pc"
  "Origin (with_CreateBuildLog b pc) = Origin pc"
  "OriginName (with_CreateBuildLog b pc) = OriginName pc"
  "InstalledSize (with_CreateBuildLog b pc) = InstalledSize pc"
  "DataHash (with_CreateBuildLog b pc) = DataHash pc"
  "OutDir (with_CreateBuildLog b pc) = OutDir pc"
  "Dependencies (with_CreateBuildLog b pc) = Dependencies pc"
  "Arch (with_CreateBuildLog b pc) = Arch pc"
  "Options (with_CreateBuildLog b pc) = Options pc"
  "Scriptlets (with_CreateBuildLog b pc) = Scriptlets pc"
  "Description (with_CreateBuildLog b pc) = Description pc"
  "URL (with_CreateBuildLog b pc) = URL pc"
  "Commit (with_CreateBuildLog b pc) = Commit pc"
  "Configuration (Build (with_CreateBuildLog b pc)) = Configuration (Build pc)"
  "SourceDateEpoch (Build (with_CreateBuildLog b pc)) = SourceDateEpoch (Build pc)"
  "WorkspaceDir (Build (with_CreateBuildLog b pc)) = WorkspaceDir (Build pc)"
  "SigningKey (Build (with_CreateBuildLog b pc)) = SigningKey (Build pc)"
  "SigningPassphrase (Build (with_CreateBuildLog b pc)) = SigningPassphrase (Build pc)"
  "DependencyLog (Build (with_CreateBuildLog b pc)) = DependencyLog (Build pc)"
  by (simp_all add: with_CreateBuildLog_def)

lemma flag_updates:
  "(with_CreateBuildLog b pc)\<lparr>Dependencies := d\<rparr> = with_CreateBuildLog b (pc\<lparr>Dependencies := d\<rparr>)"
  "(with_CreateBuildLog b pc)\<lparr>InstalledSize := n\<rparr> = with_CreateBuildLog b (pc\<lparr>InstalledSize := n\<rparr>)"
  "(with_CreateBuildLog b pc)\<lparr>DataHash := h\<rparr> = with_CreateBuildLog b (pc\<lparr>DataHash := h\<rparr>)"
  by (simp_all add: with_CreateBuildLog_def)

lemma flag_WorkspaceSubdir: "WorkspaceSubdir (with_CreateBuildLog b pc) = WorkspaceSubdir pc"
  unfolding WorkspaceSubdir_def flag_fields ..

lemma flag_cmdWalkFn: "cmdWalkFn (with_CreateBuildLog b pc) = cmdWalkFn pc"
proof (intro ext)
  fix e st
  show "cmdWalkFn (with_CreateBuildLog b pc) e st = cmdWalkFn pc e st"
    unfolding cmdWalkFn_def cmd_entry_def flag_fields ..
qed

lemma flag_soWalkFn: "soWalkFn sys (with_CreateBuildLog b pc) = soWalkFn sys pc"
proof (intro ext)
  fix e st
  show "soWalkFn sys (with_CreateBuildLog b pc) e st = soWalkFn sys pc e st"
    unfolding soWalkFn_def soSymlink_def soExecutable_def soProvides_def
      dereferenceCrossPackageSymlink_def flag_WorkspaceSubdir flag_fields ..
qed

lemma flag_pcWalkFn: "pcWalkFn sys (with_CreateBuildLog b pc) = pcWalkFn sys pc"
proof (intro ext)
  fix e st
  show "pcWalkFn sys (with_CreateBuildLog b pc) e st = pcWalkFn sys pc e st"
    unfolding pcWalkFn_def flag_WorkspaceSubdir flag_fields ..
qed

lemma flag_generators:
  "generateSharedObjectNameDeps sys (with_CreateBuildLog b pc) gen w
     = generateSharedObjectNameDeps sys pc gen w"
  "generateCmdProviders sys (with_CreateBuildLog b pc) gen w = generateCmdProviders sys pc gen w"
  "generatePkgConfigDeps sys (with_CreateBuildLog b pc) gen w = generatePkgConfigDeps sys pc gen w"
  unfolding generateSharedObjectNameDeps_def generateCmdProviders_def generatePkgConfigDeps_def
    run_walk_def writeDependencyLog_def dependency_log_name_def
    flag_soWalkFn flag_cmdWalkFn flag_pcWalkFn flag_WorkspaceSubdir flag_fields
  by (rule refl)+

lemma flag_run_generators:
  "run_generators (generators sys) (with_CreateBuildLog b pc) gen w
     = run_generators (generators sys) pc gen w"
  by (simp add: generators_def flag_generators)

lemma flag_GenerateDependencies:
  "GenerateDependencies sys (with_CreateBuildLog b pc) w =
     (case GenerateDependencies sys pc w of (w1, pc1, e) \<Rightarrow> (w1, with_CreateBuildLog b pc1, e))"
  unfolding GenerateDependencies_def flag_run_generators flag_fields flag_updates
  by (simp add: Let_def split: prod.splits option.splits)

lemma flag_calculateInstalledSize:
  "calculateInstalledSize sys (with_CreateBuildLog b pc) =
     (case calculateInstalledSize sys pc of (pc1, e) \<Rightarrow> (with_CreateBuildLog b pc1, e))"
  unfolding calculateInstalledSize_def flag_WorkspaceSubdir flag_fields flag_updates
  by (simp split: prod.splits option.splits)

lemma flag_TarContext:
  "data_TarContext (with_CreateBuildLog b pc) = data_TarContext pc"
  "control_TarContext (with_CreateBuildLog b pc) = control_TarContext pc"
  unfolding data_TarContext_def control_TarContext_def flag_fields by (rule refl)+

lemma flag_emitDataSection:
  "emitDataSection sys (with_CreateBuildLog b pc) tmp w =
     (case emitDataSection sys pc tmp w of (w1, pc1, e) \<Rightarrow> (w1, with_CreateBuildLog b pc1, e))"
  unfolding emitDataSection_def flag_TarContext flag_WorkspaceSubdir flag_fields flag_updates Let_def
  by (simp split: option.splits sum.splits)

lemma flag_control_files: "control_files (with_CreateBuildLog b pc) = control_files pc"
  unfolding control_files_def GenerateControlData_def version_release_def flag_fields ..

lemma flag_generateControlSection:
  "generateControlSection sys (with_CreateBuildLog b pc) = generateControlSection sys pc"
  unfolding generateControlSection_def flag_TarContext flag_control_files ..

lemma flag_names:
  "Filename (with_CreateBuildLog b pc) = Filename pc"
  "Identity (with_CreateBuildLog b pc) = Identity pc"
  "wantSignature (with_CreateBuildLog b pc) = wantSignature pc"
  "Signer (with_CreateBuildLog b pc) = Signer pc"
  unfolding Filename_def Identity_def version_release_def wantSignature_def Signer_def flag_fields
  by (rule refl)+

lemma flag_CreateBuildLog: "CreateBuildLog (Build (with_CreateBuildLog b pc)) = b"
  by (simp add: with_CreateBuildLog_def)

lemma agree_refl [simp]: "agree_but_build_log w w"
  by (simp add: agree_but_build_log_def)

lemma agree_logf: "agree_but_build_log wT wF \<Longrightarrow> agree_but_build_log (logf l wT) wF"
  by (auto simp: agree_but_build_log_def logf_def prefix_def)

lemma agree_AppendBuildLog:
  "agree_but_build_log (fst (AppendBuildLog sys pc [] w)) w"
  using AppendBuildLog_other [of _ "[]" sys pc w] AppendBuildLog_logger [of sys pc "[]" w]
  by (simp add: agree_but_build_log_def Join_packages_log)

lemma flag_writePackage:
  "snd (writePackage sys (with_CreateBuildLog True pc) rs w)
     = snd (writePackage sys (with_CreateBuildLog False pc) rs w)
   \<and> agree_but_build_log (fst (writePackage sys (with_CreateBuildLog True pc) rs w))
        (fst (writePackage sys (with_CreateBuildLog False pc) rs w))"
proof -
  let ?w0 = "w\<lparr>files := (files w)(Filename pc \<mapsto> [])\<rparr>"
  obtain w1 e1 where c: "combine sys (Filename pc) rs ?w0 = (w1, e1)"
    by (cases "combine sys (Filename pc) rs ?w0")
  define w1' where "w1' = logf (Printf (''wrote '' @ Filename pc)) w1"
  obtain w2 e2 where a: "AppendBuildLog sys (with_CreateBuildLog True pc) [] w1' = (w2, e2)"
    by (cases "AppendBuildLog sys (with_CreateBuildLog True pc) [] w1'")
  have f: "AppendBuildLog sys (with_CreateBuildLog False pc) [] w1' = (w1', None)"
    by (rule AppendBuildLog_unset) (simp add: flag_CreateBuildLog)
  have g: "agree_but_build_log w2 w1'"
    using agree_AppendBuildLog [of sys "with_CreateBuildLog True pc" w1'] by (simp add: a)
  have wp: "writePackage sys (with_CreateBuildLog b pc) rs w =
      (case os_MkdirAll sys (OutDir pc) of
         Some err \<Rightarrow> (w, Some (wrap ''unable to create output directory'' err))
       | None \<Rightarrow>
           (case os_Create sys (Filename pc) of
              Some err \<Rightarrow> (w, Some (wrap ''unable to create apk file'' err))
            | None \<Rightarrow>
                (case e1 of
                   Some err \<Rightarrow> (w1, Some (wrap ''unable to write apk file'' err))
                 | None \<Rightarrow>
                     (case AppendBuildLog sys (with_CreateBuildLog b pc) [] w1' of
                        (w2, Some err) \<Rightarrow>
                          (logf (Warnf (''unable to append package log: '' @ Error_msg err)) w2, None)
                      | (w2, None) \<Rightarrow> (w2, None)))))" for b
    unfolding writePackage_def flag_names flag_fields c w1'_def
    by (simp split: option.splits)
  show ?thesis
    using g agree_logf [OF g]
    unfolding wp a f
    by (cases e1; cases e2) (simp_all split: option.splits)
qed

lemma flag_emitSections:
  "snd (snd (emitSections sys (with_CreateBuildLog True pc) tmp w))
     = snd (snd (emitSections sys (with_CreateBuildLog False pc) tmp w))
   \<and> fst (snd (emitSections sys (with_CreateBuildLog True pc) tmp w))
     = with_CreateBuildLog True (fst (snd (emitSections sys (with_CreateBuildLog False pc) tmp w)))
   \<and> agree_but_build_log (fst (emitSections sys (with_CreateBuildLog True pc) tmp w))
        (fst (emitSections sys (with_CreateBuildLog False pc) tmp w))"
proof -
  obtain w1 pc1 e1 where d: "emitDataSection sys pc tmp w = (w1, pc1, e1)"
    by (cases "emitDataSection sys pc tmp w")
  show ?thesis
  proof (cases e1)
    case (Some err)
    then show ?thesis by (simp add: emitSections_def flag_emitDataSection d flag_generateControlSection flag_names flag_fields)
  next
    case None
    show ?thesis
    proof (cases "generateControlSection sys pc1")
      case (Inl err)
      then show ?thesis by (simp add: emitSections_def flag_emitDataSection d None flag_generateControlSection flag_names flag_fields)
    next
      case (Inr c)
      show ?thesis
      proof (cases "wantSignature pc1")
        case True
        show ?thesis
        proof (cases "EmitSignature sys (Signer pc1) c (SourceDateEpoch (Build pc1))")
          case (Inl err)
          then show ?thesis
            by (simp add: emitSections_def flag_emitDataSection d None Inr True flag_generateControlSection flag_names flag_fields)
        next
          case (Inr sig)
          with flag_writePackage [of sys pc1 "[BytesReader sig, BytesReader c, FileReader tmp]" w1]
          show ?thesis
            by (simp add: emitSections_def flag_emitDataSection d None \<open>generateControlSection sys pc1 = Inr c\<close> True Let_def flag_generateControlSection flag_names flag_fields)
        qed
      next
        case False
        with flag_writePackage [of sys pc1 "[BytesReader c, FileReader tmp]" w1]
        show ?thesis
          by (simp add: emitSections_def flag_emitDataSection d None Inr Let_def flag_generateControlSection flag_names flag_fields)
      qed
    qed
  qed
qed

lemma agree_remove:
  "agree_but_build_log wT wF \<Longrightarrow>
     agree_but_build_log (wT\<lparr>files := (files wT)(n := None)\<rparr>) (wF\<lparr>files := (files wF)(n := None)\<rparr>)"
  by (simp add: agree_but_build_log_def)

lemma flag_EmitPackage:
  "snd (snd (EmitPackage sys (with_CreateBuildLog True pc) w))
     = snd (snd (EmitPackage sys (with_CreateBuildLog False pc) w))
   \<and> fst (snd (EmitPackage sys (with_CreateBuildLog True pc) w))
     = with_CreateBuildLog True (fst (snd (EmitPackage sys (with_CreateBuildLog False pc) w)))
   \<and> agree_but_build_log (fst (EmitPackage sys (with_CreateBuildLog True pc) w))
        (fst (EmitPackage sys (with_CreateBuildLog False pc) w))"
proof -
  let ?w0 = "logf (Printf (''generating package '' @ Identity pc)) w"
  obtain w1 pc1 e1 where gd: "GenerateDependencies sys pc ?w0 = (w1, pc1, e1)"
    by (cases "GenerateDependencies sys pc ?w0")
  obtain pc2 e2 where ci: "calculateInstalledSize sys pc1 = (pc2, e2)"
    by (cases "calculateInstalledSize sys pc1")
  note defs = EmitPackage_def flag_GenerateDependencies flag_calculateInstalledSize
    flag_WorkspaceSubdir flag_names flag_fields gd [simplified] ci CreateTemp_def
  show ?thesis
  proof (cases "os_MkdirAll sys (WorkspaceSubdir pc)")
    case (Some err)
    then show ?thesis by (simp add: defs)
  next
    case None
    show ?thesis
    proof (cases e1)
      case (Some err)
      then show ?thesis by (simp add: defs None)
    next
      case n1: None
      show ?thesis
      proof (cases e2)
        case (Some err)
        then show ?thesis by (simp add: defs None n1)
      next
        case n2: None
        show ?thesis
        proof (cases "os_CreateTemp sys ''melange-data-*.tar.gz''")
          case (Inl err)
          then show ?thesis by (simp add: defs None n1 n2)
        next
          case (Inr stem)
          let ?w2 = "logf (Printf (''  installed-size: '' @ show_int (sint (InstalledSize pc2)))) w1"
          from flag_emitSections [of sys pc2 "stem @ ''.tar.gz''"
              "?w2\<lparr>files := (files ?w2)(stem @ ''.tar.gz'' \<mapsto> [])\<rparr>"]
          show ?thesis
            by (simp add: defs None n1 n2 Inr Let_def agree_remove)
        qed
      qed
    qed
  qed
qed

subsection \<open>The signer of the system\<close>

lemma sig_fields:
  "WalkDir (sys\<lparr>EmitSignature := f\<rparr>) = WalkDir sys"
  "elf_Open (sys\<lparr>EmitSignature := f\<rparr>) = elf_Open sys"
  "os_Readlink (sys\<lparr>EmitSignature := f\<rparr>) = os_Readlink sys"
  "os_Stat (sys\<lparr>EmitSignature := f\<rparr>) = os_Stat sys"
  "pkgconfig_Load (sys\<lparr>EmitSignature := f\<rparr>) = pkgconfig_Load sys"
  "os_Create (sys\<lparr>EmitSignature := f\<rparr>) = os_Create sys"
  "file_Write (sys\<lparr>EmitSignature := f\<rparr>) = file_Write sys"
  "json_Marshal (sys\<lparr>EmitSignature := f\<rparr>) = json_Marshal sys"
  "Summarize (sys\<lparr>EmitSignature := f\<rparr>) = Summarize sys"
  "os_MkdirAll (sys\<lparr>EmitSignature := f\<rparr>) = os_MkdirAll sys"
  "os_CreateTemp (sys\<lparr>EmitSignature := f\<rparr>) = os_CreateTemp sys"
  "os_OpenFile_append (sys\<lparr>EmitSignature := f\<rparr>) = os_OpenFile_append sys"
  "file_Seek (sys\<lparr>EmitSignature := f\<rparr>) = file_Seek sys"
  "tarball_NewContext (sys\<lparr>EmitSignature := f\<rparr>) = tarball_NewContext sys"
  "WriteTar_dir (sys\<lparr>EmitSignature := f\<rparr>) = WriteTar_dir sys"
  "WriteTar_mem (sys\<lparr>EmitSignature := f\<rparr>) = WriteTar_mem sys"
  "memfs_WriteFile (sys\<lparr>EmitSignature := f\<rparr>) = memfs_WriteFile sys"
  "gzip (sys\<lparr>EmitSignature := f\<rparr>) = gzip sys"
  "gzip_Close (sys\<lparr>EmitSignature := f\<rparr>) = gzip_Close sys"
  "pgzip (sys\<lparr>EmitSignature := f\<rparr>) = pgzip sys"
  "pgzip_Close (sys\<lparr>EmitSignature := f\<rparr>) = pgzip_Close sys"
  "pgzip_SetConcurrency (sys\<lparr>EmitSignature := f\<rparr>) = pgzip_SetConcurrency sys"
  "GOMAXPROCS (sys\<lparr>EmitSignature := f\<rparr>) = GOMAXPROCS sys"
  "sha256_hex (sys\<lparr>EmitSignature := f\<rparr>) = sha256_hex sys"
  by simp_all

lemma sig_soWalkFn: "soWalkFn (sys\<lparr>EmitSignature := f\<rparr>) pc = soWalkFn sys pc"
proof (intro ext)
  fix e st
  show "soWalkFn (sys\<lparr>EmitSignature := f\<rparr>) pc e st = soWalkFn sys pc e st"
    unfolding soWalkFn_def soSymlink_def soExecutable_def soProvides_def
      dereferenceCrossPackageSymlink_def sig_fields ..
qed

lemma sig_pcWalkFn: "pcWalkFn (sys\<lparr>EmitSignature := f\<rparr>) pc = pcWalkFn sys pc"
proof (intro ext)
  fix e st
  show "pcWalkFn (sys\<lparr>EmitSignature := f\<rparr>) pc e st = pcWalkFn sys pc e st"
    unfolding pcWalkFn_def sig_fields ..
qed

lemma sig_write_file: "write_file (sys\<lparr>EmitSignature := f\<rparr>) = write_file sys"
proof (intro ext)
  fix name d w
  show "write_file (sys\<lparr>EmitSignature := f\<rparr>) name d w = write_file sys name d w"
    unfolding write_file_def sig_fields ..
qed

lemma sig_generators: "generators (sys\<lparr>EmitSignature := f\<rparr>) = generators sys"
proof -
  have 1: "generateSharedObjectNameDeps (sys\<lparr>EmitSignature := f\<rparr>) = generateSharedObjectNameDeps sys"
  proof (intro ext)
    fix pc gen w
    show "generateSharedObjectNameDeps (sys\<lparr>EmitSignature := f\<rparr>) pc gen w
        = generateSharedObjectNameDeps sys pc gen w"
      unfolding generateSharedObjectNameDeps_def run_walk_def writeDependencyLog_def
        sig_soWalkFn sig_write_file sig_fields ..
  qed
  have 2: "generateCmdProviders (sys\<lparr>EmitSignature := f\<rparr>) = generateCmdProviders sys"
  proof (intro ext)
    fix pc gen w
    show "generateCmdProviders (sys\<lparr>EmitSignature := f\<rparr>) pc gen w = generateCmdProviders sys pc gen w"
      unfolding generateCmdProviders_def run_walk_def sig_fields ..
  qed
  have 3: "generatePkgConfigDeps (sys\<lparr>EmitSignature := f\<rparr>) = generatePkgConfigDeps sys"
  proof (intro ext)
    fix pc gen w
    show "generatePkgConfigDeps (sys\<lparr>EmitSignature := f\<rparr>) pc gen w = generatePkgConfigDeps sys pc gen w"
      unfolding generatePkgConfigDeps_def run_walk_def sig_pcWalkFn sig_fields ..
  qed
  show ?thesis unfolding generators_def 1 2 3 ..
qed

lemma sig_GenerateDependencies:
  "GenerateDependencies (sys\<lparr>EmitSignature := f\<rparr>) pc w = GenerateDependencies sys pc w"
  unfolding GenerateDependencies_def sig_generators sig_fields ..

lemma sig_calculateInstalledSize:
  "calculateInstalledSize (sys\<lparr>EmitSignature := f\<rparr>) pc = calculateInstalledSize sys pc"
  unfolding calculateInstalledSize_def sig_fields ..

lemma sig_emitDataSection:
  "emitDataSection (sys\<lparr>EmitSignature := f\<rparr>) pc tmp w = emitDataSection sys pc tmp w"
  unfolding emitDataSection_def pgzipThreads_def sig_fields ..

lemma sig_memfs_WriteFiles:
  "memfs_WriteFiles (sys\<lparr>EmitSignature := f\<rparr>) fs = memfs_WriteFiles sys fs"
  by (induction fs) (simp_all split: option.splits)

lemma sig_generateControlSection:
  "generateControlSection (sys\<lparr>EmitSignature := f\<rparr>) pc = generateControlSection sys pc"
  unfolding generateControlSection_def sig_memfs_WriteFiles sig_fields ..

lemma sig_combine:
  "combine (sys\<lparr>EmitSignature := f\<rparr>) out rs w = combine sys out rs w"
  by (induction rs arbitrary: w) (simp_all add: sig_write_file)

lemma sig_writePackage:
  "writePackage (sys\<lparr>EmitSignature := f\<rparr>) pc rs w = writePackage sys pc rs w"
  unfolding writePackage_def AppendBuildLog_def sig_combine sig_write_file sig_fields ..

lemma sig_CreateTemp: "CreateTemp (sys\<lparr>EmitSignature := f\<rparr>) pfx sfx = CreateTemp sys pfx sfx"
  unfolding CreateTemp_def sig_fields ..

lemma emitDataSection_Build:
  "emitDataSection sys pc tmp w = (w1, pc1, e) \<Longrightarrow> Build pc1 = Build pc"
  by (auto simp: emitDataSection_def Let_def split: option.splits sum.splits)

lemma GenerateDependencies_Build:
  "GenerateDependencies sys pc w = (w1, pc1, e) \<Longrightarrow> Build pc1 = Build pc"
  by (auto simp: GenerateDependencies_def Let_def split: option.splits prod.splits)

lemma calculateInstalledSize_Build:
  "calculateInstalledSize sys pc = (pc1, e) \<Longrightarrow> Build pc1 = Build pc"
  by (auto simp: calculateInstalledSize_def split: option.splits prod.splits)

lemma sig_emitSections:
  assumes "\<not> wantSignature pc"
  shows "emitSections (sys\<lparr>EmitSignature := f\<rparr>) pc tmp w = emitSections sys pc tmp w"
proof -
  obtain w1 pc1 e1 where d: "emitDataSection sys pc tmp w = (w1, pc1, e1)"
    by (cases "emitDataSection sys pc tmp w")
  from emitDataSection_Build [OF d] assms have n: "\<not> wantSignature pc1"
    by (simp add: wantSignature_def)
  show ?thesis
    by (cases e1; cases "generateControlSection sys pc1")
      (simp_all add: emitSections_def sig_emitDataSection sig_generateControlSection
        sig_writePackage d n)
qed

lemma sig_EmitPackage:
  assumes "SigningKey (Build pc) = []"
  shows "EmitPackage (sys\<lparr>EmitSignature := f\<rparr>) pc w = EmitPackage sys pc w"
proof -
  let ?w0 = "logf (Printf (''generating package '' @ Identity pc)) w"
  obtain w1 pc1 e1 where gd: "GenerateDependencies sys pc ?w0 = (w1, pc1, e1)"
    by (cases "GenerateDependencies sys pc ?w0")
  obtain pc2 e2 where ci: "calculateInstalledSize sys pc1 = (pc2, e2)"
    by (cases "calculateInstalledSize sys pc1")
  from GenerateDependencies_Build [OF gd] calculateInstalledSize_Build [OF ci] assms
  have n: "\<not> wantSignature pc2" by (simp add: wantSignature_def)
  show ?thesis
    by (cases "os_MkdirAll sys (WorkspaceSubdir pc)"; cases e1; cases e2;
        cases "os_CreateTemp sys ''melange-data-*.tar.gz''")
      (simp_all add: EmitPackage_def sig_GenerateDependencies sig_calculateInstalledSize
        sig_CreateTemp CreateTemp_def sig_emitSections [OF n] gd [simplified] ci Let_def)
qed

section \<open>The staged workspace, evaluated\<close>

lemma ex_Join_app:
  "Join [WorkspaceSubdir ex_pc, ''usr/bin/app''] = ''/ws/melange-out/foo/usr/bin/app''"
  by code_simp

lemma ex_Join_libfoo:
  "Join [WorkspaceSubdir ex_pc, ''usr/lib/libfoo.so.2.1''] = ''/ws/melange-out/foo/usr/lib/libfoo.so.2.1''"
  by code_simp

lemma ex_Join_pc:
  "Join [WorkspaceSubdir ex_pc, ''usr/lib/pkgconfig/foo.pc''] = ''/ws/melange-out/foo/usr/lib/pkgconfig/foo.pc''"
  by code_simp

lemma ex_Perm_755: "IsRegular (0x1ED :: FileMode) \<and> Perm (0x1ED :: FileMode) AND 0x16D = 0x16D"
  by code_simp

lemma ex_outside_ok: "snd (snd (GenerateDependencies ex_sys_outside ex_pc ex_world)) = None"
  by code_simp

lemma ex_outside_provides:
  "Provides (Dependencies (fst (snd (GenerateDependencies ex_sys_outside ex_pc ex_world)))) =
     [''cmd:tool=1.0-r0'', ''so:libfoo.so.2=2'']"
  by code_simp

lemma ex_outside_dirs:
  "\<not> list_ex (\<lambda>d. prefix (d @ ''/'') ''binx/tool'') cmdPrefixes
   \<and> \<not> list_ex (\<lambda>d. prefix (d @ ''/'') ''libexec/libfoo.so.2.1'') libDirs"
  by code_simp

lemma ex_GenerateDependencies_ok:
  "snd (snd (GenerateDependencies ex_sys ex_pc ex_world)) = None"
  by code_simp

lemma ex_GenerateDependencies_deps:
  "Dependencies (fst (snd (GenerateDependencies ex_sys ex_pc ex_world))) =
     \<lparr>Runtime = [''busybox'', ''so:libc.musl-x86_64.so.1'', ''so:libssl.so.3''],
      Provides = [''cmd:app=1.0-r0'', ''pc:foo=1.0_rc2'', ''so:libfoo.so.2=2''],
      Replaces = [], ProviderPriority = 0\<rparr>"
  by code_simp

lemma ex_GenerateDependencies:
  "GenerateDependencies ex_sys ex_pc ex_world =
     (fst (GenerateDependencies ex_sys ex_pc ex_world),
      fst (snd (GenerateDependencies ex_sys ex_pc ex_world)), None)"
  using ex_GenerateDependencies_ok by (metis prod.collapse)

lemma ex_framed_ok: "snd (snd (EmitPackage ex_sys_framed ex_pc_signed ex_world)) = None"
  by code_simp

lemma ex_framed_control:
  "WriteTar_mem ex_sys_framed (control_TarContext ex_pc_signed)
     (control_files (fst (snd (EmitPackage ex_sys_framed ex_pc_signed ex_world)))) = Inr ''.PKGINFO''"
  by code_simp

lemma ex_unsigned_ok: "snd (snd (EmitPackage ex_sys ex_pc ex_world)) = None"
  by code_simp

lemma ex_unsigned_control:
  "WriteTar_mem ex_sys (control_TarContext ex_pc)
     (control_files (fst (snd (EmitPackage ex_sys ex_pc ex_world)))) = Inr ''.PKGINFO''"
  by code_simp

section \<open>The claims\<close>

text \<open>
  C1. After \<open>GenerateDependencies\<close> has returned without error, no entry of the runtime
  list equals the name (the text before the first \<open>=\<close>) of an entry of the provides
  list: the dependencies the package provides itself, declared or generated, are gone
  from runtime.
\<close>

theorem self_provides_filter:
  assumes "GenerateDependencies sys pc w = (w', pc', None)"
    and "r \<in> set (Runtime (Dependencies pc'))"
    and "p \<in> set (Provides (Dependencies pc'))"
  shows "r \<noteq> dep_name p"
proof -
  from GenerateDependencies_ok [OF assms(1)] obtain gen
    where d: "pc' = pc\<lparr>Dependencies := merge_Dependencies (Dependencies pc) gen\<rparr>" ..
  from assms(2) have "r \<notin> dep_name ` set (Provides (Dependencies pc'))"
    by (simp add: d Runtime_merge Provides_merge removeSelfProvidedDeps_filter)
  with assms(3) show ?thesis by blast
qed

text \<open>
  On the staged workspace the scan generates \<open>so:libfoo.so.2\<close> for runtime and
  \<open>so:libfoo.so.2=2\<close> for provides; the first is filtered out.
\<close>

theorem self_provides_filter_witness:
  "snd (snd (GenerateDependencies ex_sys ex_pc ex_world)) = None
   \<and> Runtime (Dependencies (fst (snd (GenerateDependencies ex_sys ex_pc ex_world)))) =
       [''busybox'', ''so:libc.musl-x86_64.so.1'', ''so:libssl.so.3'']
   \<and> Provides (Dependencies (fst (snd (GenerateDependencies ex_sys ex_pc ex_world)))) =
       [''cmd:app=1.0-r0'', ''pc:foo=1.0_rc2'', ''so:libfoo.so.2=2'']
   \<and> ''so:libssl.so.3'' \<noteq> dep_name ''so:libfoo.so.2=2''"
  using self_provides_filter
      [OF ex_GenerateDependencies, of "''so:libssl.so.3''" "''so:libfoo.so.2=2''"]
    ex_GenerateDependencies_ok ex_GenerateDependencies_deps
  by simp

text \<open>
  C2. After \<open>GenerateDependencies\<close> has returned without error, the runtime list and the
  provides list are each strictly ascending in the lexicographic order of strings, and
  so without duplicates; the filter of the self-provided entries keeps the order.
\<close>

theorem sorted_deduplicated:
  assumes "GenerateDependencies sys pc w = (w', pc', None)"
  shows "sorted_wrt (<) (Runtime (Dependencies pc')) \<and> distinct (Runtime (Dependencies pc'))
       \<and> sorted_wrt (<) (Provides (Dependencies pc')) \<and> distinct (Provides (Dependencies pc'))"
proof -
  from GenerateDependencies_ok [OF assms(1)] obtain gen
    where d: "pc' = pc\<lparr>Dependencies := merge_Dependencies (Dependencies pc) gen\<rparr>" ..
  have s: "\<And>xs :: string list. sorted_wrt (<) xs \<Longrightarrow> distinct xs"
    by (simp add: strict_sorted_iff)
  have r: "sorted_wrt (<) (Runtime (Dependencies pc'))"
    by (simp add: d Runtime_merge removeSelfProvidedDeps_filter sorted_wrt_filter
        sorted_wrt_dedup)
  have p: "sorted_wrt (<) (Provides (Dependencies pc'))"
    by (simp add: d Provides_merge sorted_wrt_dedup)
  from r p s show ?thesis by blast
qed

theorem sorted_deduplicated_witness:
  "snd (snd (GenerateDependencies ex_sys ex_pc ex_world)) = None
   \<and> Dependencies (fst (snd (GenerateDependencies ex_sys ex_pc ex_world))) =
       \<lparr>Runtime = [''busybox'', ''so:libc.musl-x86_64.so.1'', ''so:libssl.so.3''],
        Provides = [''cmd:app=1.0-r0'', ''pc:foo=1.0_rc2'', ''so:libfoo.so.2=2''],
        Replaces = [], ProviderPriority = 0\<rparr>
   \<and> sorted_wrt (<) [''busybox'', ''so:libc.musl-x86_64.so.1'', ''so:libssl.so.3'']
   \<and> sorted_wrt (<) [''cmd:app=1.0-r0'', ''pc:foo=1.0_rc2'', ''so:libfoo.so.2=2'']"
  using sorted_deduplicated [OF ex_GenerateDependencies]
    ex_GenerateDependencies_ok ex_GenerateDependencies_deps
  by simp

text \<open>
  C3. When \<open>EmitPackage\<close> has returned without error, the file \<open>{out-dir}/{identity}.apk\<close>
  holds, in this order and with nothing else, the bytes of the signature section (present
  exactly when a signing key is configured; they are what \<open>EmitSignature\<close> returned for
  the control section), the control section and the data section. The control section is
  the output of the closed gzip writer for the tar of the control tree, the data section
  the output of the closed parallel gzip writer for the tar of the workspace, whose
  SHA-256 is the data hash of the job. Hence a decoder that reads the members written by
  both gzip writers reads from the file, in this order, the signature (when the signer
  gave one gzip member), the control tar and the data tar, and nothing more.
\<close>

theorem apk_is_concatenation:
  assumes "EmitPackage sys pc w = (w', pc', None)"
  shows "\<exists>ctar dtar sig apk.
           WriteTar_mem sys (control_TarContext pc) (control_files pc') = Inr ctar
         \<and> WriteTar_dir sys (data_TarContext pc) (WorkspaceSubdir pc) = Inr dtar
         \<and> (if wantSignature pc
              then EmitSignature sys (Signer pc) (gzip sys ctar) (SourceDateEpoch (Build pc)) = Inr sig
              else sig = [])
         \<and> DataHash pc' = sha256_hex sys (pgzip sys dtar)
         \<and> files w' (Filename pc) = Some apk
         \<and> apk = sig @ gzip sys ctar @ pgzip sys dtar
         \<and> (\<forall>next_member n.
               reads_members_of next_member (gzip sys) \<longrightarrow>
               reads_members_of next_member (pgzip sys) \<longrightarrow>
               (if wantSignature pc
                then \<forall>star. sig = gzip sys star \<longrightarrow>
                       read_members next_member (n + 3) apk = Some [star, ctar, dtar]
                else read_members next_member (n + 2) apk = Some [ctar, dtar]))"
proof -
  from EmitPackage_ok [OF assms] obtain ctar dtar sig where
    1: "WriteTar_mem sys (control_TarContext pc) (control_files pc') = Inr ctar"
    and 2: "WriteTar_dir sys (data_TarContext pc) (WorkspaceSubdir pc) = Inr dtar"
    and 3: "if wantSignature pc
        then EmitSignature sys (Signer pc) (gzip sys ctar) (SourceDateEpoch (Build pc)) = Inr sig
        else sig = []"
    and 4: "DataHash pc' = sha256_hex sys (pgzip sys dtar)"
    and 5: "files w' (Filename pc) = Some (sig @ gzip sys ctar @ pgzip sys dtar)"
    by blast
  have 6: "if wantSignature pc
      then \<forall>star. sig = gzip sys star \<longrightarrow>
             read_members next_member (n + 3) (sig @ gzip sys ctar @ pgzip sys dtar)
               = Some [star, ctar, dtar]
      else read_members next_member (n + 2) (sig @ gzip sys ctar @ pgzip sys dtar)
             = Some [ctar, dtar]"
    if g: "reads_members_of next_member (gzip sys)"
      and p: "reads_members_of next_member (pgzip sys)" for next_member n
  proof (cases "wantSignature pc")
    case True
    then show ?thesis
      using read_three_members [OF g p, of n _ ctar dtar] by (simp add: numeral_3_eq_3)
  next
    case False
    with 3 have "sig = []" by simp
    with False show ?thesis
      using read_two_members [OF g p, of n ctar dtar] by (simp add: numeral_2_eq_2)
  qed
  from 1 2 3 4 5 6 show ?thesis by blast
qed

theorem apk_is_concatenation_witness:
  "snd (snd (EmitPackage ex_sys_framed ex_pc_signed ex_world)) = None
   \<and> wantSignature ex_pc_signed
   \<and> reads_members_of ex_next_member (gzip ex_sys_framed)
   \<and> reads_members_of ex_next_member (pgzip ex_sys_framed)
   \<and> files (fst (EmitPackage ex_sys_framed ex_pc_signed ex_world)) (Filename ex_pc_signed)
       = Some (ex_frame ''SIG'' @ ex_frame ''.PKGINFO'' @ ex_frame ''DATA'')
   \<and> read_members ex_next_member 3 (ex_frame ''SIG'' @ ex_frame ''.PKGINFO'' @ ex_frame ''DATA'')
       = Some [''SIG'', ''.PKGINFO'', ''DATA'']"
proof -
  have e: "EmitPackage ex_sys_framed ex_pc_signed ex_world =
      (fst (EmitPackage ex_sys_framed ex_pc_signed ex_world),
       fst (snd (EmitPackage ex_sys_framed ex_pc_signed ex_world)), None)"
    using ex_framed_ok by (metis prod.collapse)
  have s: "wantSignature ex_pc_signed" by code_simp
  have gz: "gzip ex_sys_framed = ex_frame" "pgzip ex_sys_framed = ex_frame"
    by (simp_all add: ex_sys_framed_def)
  have r: "reads_members_of ex_next_member (gzip ex_sys_framed)"
    "reads_members_of ex_next_member (pgzip ex_sys_framed)"
    by (simp_all add: gz ex_next_member_frame)
  from apk_is_concatenation [OF e] obtain ctar dtar sig apk where
    1: "WriteTar_mem ex_sys_framed (control_TarContext ex_pc_signed)
          (control_files (fst (snd (EmitPackage ex_sys_framed ex_pc_signed ex_world)))) = Inr ctar"
    and 2: "WriteTar_dir ex_sys_framed (data_TarContext ex_pc_signed) (WorkspaceSubdir ex_pc_signed)
          = Inr dtar"
    and 3: "EmitSignature ex_sys_framed (Signer ex_pc_signed) (gzip ex_sys_framed ctar)
          (SourceDateEpoch (Build ex_pc_signed)) = Inr sig"
    and 4: "files (fst (EmitPackage ex_sys_framed ex_pc_signed ex_world)) (Filename ex_pc_signed)
          = Some apk"
    and 5: "apk = sig @ gzip ex_sys_framed ctar @ pgzip ex_sys_framed dtar"
    and 6: "\<forall>next_member n.
              reads_members_of next_member (gzip ex_sys_framed) \<longrightarrow>
              reads_members_of next_member (pgzip ex_sys_framed) \<longrightarrow>
              (\<forall>star. sig = gzip ex_sys_framed star \<longrightarrow>
                 read_members next_member (n + 3) apk = Some [star, ctar, dtar])"
    using s by auto
  from 1 ex_framed_control have c: "ctar = ''.PKGINFO''" by simp
  from 2 have d: "dtar = ''DATA''" by (simp add: ex_sys_framed_def ex_sys_def)
  from 3 have g: "sig = ex_frame ''SIG''" by (simp add: ex_sys_framed_def)
  have a: "apk = ex_frame ''SIG'' @ ex_frame ''.PKGINFO'' @ ex_frame ''DATA''"
    by (simp only: 5 c d g gz)
  from 6 r g have "read_members ex_next_member (0 + 3) apk = Some [''SIG'', ctar, dtar]"
    by (simp only: gz)
  then have m: "read_members ex_next_member 3 (ex_frame ''SIG'' @ ex_frame ''.PKGINFO'' @ ex_frame ''DATA'')
      = Some [''SIG'', ''.PKGINFO'', ''DATA'']"
    by (simp only: a c d add_0)
  from ex_framed_ok s r 4 a m show ?thesis by (simp only: simp_thms)
qed

text \<open>
  C4, as amended. For a pkg-config file that is not a symlink, whose path ends in \<open>.pc\<close>
  and whose descriptor loads with the version \<open>v\<close>, with \<open>no-provides\<close> unset, the walk
  function appends to provides exactly the entry \<open>pc:{name}={apk-version}\<close>, where
  \<open>name\<close> is the base name without \<open>.pc\<close> and the version is \<open>v\<close> with every
  occurrence of \<open>-alpha\<close>, \<open>-beta\<close>, \<open>-rc\<close> or \<open>-pre\<close> rewritten to \<open>_alpha\<close>,
  \<open>_beta\<close>, \<open>_rc\<close> or \<open>_pre\<close>.
\<close>

theorem pkgconfig_provides:
  assumes "walk_err e = None" and "HasSuffix (path e) ''.pc''" and "d_Info e = Inr fi"
    and "Type (fi_Mode fi) AND ModeSymlink \<noteq> ModeSymlink"
    and "pkgconfig_Load sys (Join [WorkspaceSubdir pc, path e]) = Inr pkg"
    and "\<not> NoProvides (Options pc)"
  shows "\<exists>name. Base (path e) = name @ ''.pc''
           \<and> pcWalkFn sys pc e st =
               (add_Provides [''pc:'' @ name @ ''='' @ rewrite_every (pkg_Version pkg)] st, None)"
proof -
  from Base_pc [OF assms(2)] obtain name where n: "Base (path e) = name @ ''.pc''" ..
  have "pc_entry (path e) (pkg_Version pkg)
      = ''pc:'' @ name @ ''='' @ rewrite_every (pkg_Version pkg)"
    using CutSuffix_append [of name "''.pc''"]
    by (simp add: pc_entry_def n ReplaceAllString_rewrite_every)
  with pcWalkFn_provides [OF assms, of st] n show ?thesis by auto
qed

theorem pkgconfig_provides_witness:
  "HasSuffix ''usr/lib/pkgconfig/foo.pc'' ''.pc''
   \<and> pkgconfig_Load ex_sys (Join [WorkspaceSubdir ex_pc, ''usr/lib/pkgconfig/foo.pc'']) =
       Inr \<lparr>pkg_Version = ''1.0-rc2'', Requires = [], RequiresPrivate = [], RequiresInternal = []\<rparr>
   \<and> pcWalkFn ex_sys ex_pc (ex_entry ''usr/lib/pkgconfig/foo.pc'' 0x1A4) ex_scan =
       (add_Provides [''pc:foo=1.0_rc2''] ex_scan, None)"
proof -
  let ?e = "ex_entry ''usr/lib/pkgconfig/foo.pc'' 0x1A4"
  let ?pkg = "\<lparr>pkg_Version = ''1.0-rc2'', Requires = [], RequiresPrivate = [], RequiresInternal = []\<rparr>"
  have h1: "walk_err ?e = None" by (simp add: ex_entry_def)
  have h2: "HasSuffix (path ?e) ''.pc''" by (simp add: ex_entry_def HasSuffix_def suffix_def)
  have h3: "d_Info ?e = Inr \<lparr>fi_Mode = 0x1A4, fi_Size = 100\<rparr>" by (simp add: ex_entry_def)
  have h4: "Type (fi_Mode \<lparr>fi_Mode = 0x1A4, fi_Size = 100\<rparr>) AND ModeSymlink \<noteq> ModeSymlink"
    by code_simp
  have h5: "pkgconfig_Load ex_sys (Join [WorkspaceSubdir ex_pc, path ?e]) = Inr ?pkg"
    by (simp add: ex_entry_def ex_Join_pc ex_sys_def)
  have h6: "\<not> NoProvides (Options ex_pc)" by (simp add: ex_pc_def)
  have b: "Base (path ?e) = ''foo.pc''" by code_simp
  have v: "rewrite_every ''1.0-rc2'' = ''1.0_rc2''" by code_simp
  from pkgconfig_provides [OF h1 h2 h3 h4 h5 h6, of ex_scan] b v
  have "pcWalkFn ex_sys ex_pc ?e ex_scan = (add_Provides [''pc:foo=1.0_rc2''] ex_scan, None)"
    by auto
  with h2 h5 show ?thesis by (simp add: ex_entry_def)
qed

text \<open>
  The claim as stated rewrites the first occurrence only. The version \<open>1.0-rc1-pre2\<close>
  has two: the source gives \<open>pc:foo=1.0_rc1_pre2\<close>, the first-occurrence rewrite
  \<open>pc:foo=1.0_rc1-pre2\<close>.
\<close>

theorem pkgconfig_first_occurrence_counterexample:
  "Provides (generated (fst (pcWalkFn
       (ex_sys\<lparr>pkgconfig_Load := (\<lambda>p. Inr \<lparr>pkg_Version = ''1.0-rc1-pre2'', Requires = [],
                                              RequiresPrivate = [], RequiresInternal = []\<rparr>)\<rparr>)
       ex_pc (ex_entry ''usr/lib/pkgconfig/foo.pc'' 0x1A4) ex_scan))) = [''pc:foo=1.0_rc1_pre2'']
   \<and> ''pc:foo='' @ rewrite_first ''1.0-rc1-pre2'' = ''pc:foo=1.0_rc1-pre2''"
  by code_simp

text \<open>
  C5, as amended. With no signing-key path configured, emission asks for no signature:
  \<open>wantSignature\<close> is false, the outcome of \<open>EmitPackage\<close> does not depend on what
  \<open>EmitSignature\<close> would return (the keyless signer, which \<open>Signer\<close> would select, is
  never asked), and the emitted \<open>.apk\<close> is the control section followed by the data
  section, with no signature section before them.
\<close>

theorem keyless_emits_no_signature:
  assumes "SigningKey (Build pc) = []"
  shows "\<not> wantSignature pc
       \<and> Signer pc = FulcioApkSigner
       \<and> EmitPackage (sys\<lparr>EmitSignature := f\<rparr>) pc w = EmitPackage sys pc w
       \<and> (\<forall>w' pc'. EmitPackage sys pc w = (w', pc', None) \<longrightarrow>
            (\<exists>ctar dtar.
               WriteTar_mem sys (control_TarContext pc) (control_files pc') = Inr ctar
             \<and> WriteTar_dir sys (data_TarContext pc) (WorkspaceSubdir pc) = Inr dtar
             \<and> files w' (Filename pc) = Some (gzip sys ctar @ pgzip sys dtar)))"
proof -
  from assms have n: "\<not> wantSignature pc" by (simp add: wantSignature_def)
  from assms have s: "Signer pc = FulcioApkSigner" by (simp add: Signer_def)
  have "\<exists>ctar dtar.
          WriteTar_mem sys (control_TarContext pc) (control_files pc') = Inr ctar
        \<and> WriteTar_dir sys (data_TarContext pc) (WorkspaceSubdir pc) = Inr dtar
        \<and> files w' (Filename pc) = Some (gzip sys ctar @ pgzip sys dtar)"
    if "EmitPackage sys pc w = (w', pc', None)" for w' pc'
    using EmitPackage_ok [OF that] n by auto
  with n s sig_EmitPackage [OF assms, where sys = sys and f = f and w = w] show ?thesis by blast
qed

theorem keyless_emits_no_signature_witness:
  "SigningKey (Build ex_pc) = []
   \<and> snd (snd (EmitPackage ex_sys ex_pc ex_world)) = None
   \<and> EmitPackage (ex_sys\<lparr>EmitSignature := (\<lambda>s c t. Inl (Error ''no identity''))\<rparr>) ex_pc ex_world
       = EmitPackage ex_sys ex_pc ex_world
   \<and> files (fst (EmitPackage ex_sys ex_pc ex_world)) (Filename ex_pc)
       = Some (''<.PKGINFO>'' @ ''[DATA]'')"
proof -
  have k: "SigningKey (Build ex_pc) = []" by (simp add: ex_pc_def)
  have e: "EmitPackage ex_sys ex_pc ex_world =
      (fst (EmitPackage ex_sys ex_pc ex_world),
       fst (snd (EmitPackage ex_sys ex_pc ex_world)), None)"
    using ex_unsigned_ok by (metis prod.collapse)
  note t = keyless_emits_no_signature [OF k, where sys = ex_sys
      and f = "\<lambda>s c t. Inl (Error ''no identity'')" and w = ex_world]
  from t e obtain ctar dtar where
    1: "WriteTar_mem ex_sys (control_TarContext ex_pc)
          (control_files (fst (snd (EmitPackage ex_sys ex_pc ex_world)))) = Inr ctar"
    and 2: "WriteTar_dir ex_sys (data_TarContext ex_pc) (WorkspaceSubdir ex_pc) = Inr dtar"
    and 4: "files (fst (EmitPackage ex_sys ex_pc ex_world)) (Filename ex_pc)
          = Some (gzip ex_sys ctar @ pgzip ex_sys dtar)"
    by blast
  from 1 ex_unsigned_control have c: "ctar = ''.PKGINFO''" by simp
  from 2 have d: "dtar = ''DATA''" by (simp add: ex_sys_def)
  have "gzip ex_sys ''.PKGINFO'' = ''<.PKGINFO>''" "pgzip ex_sys ''DATA'' = ''[DATA]''"
    by (simp_all add: ex_sys_def)
  with 4 c d k ex_unsigned_ok t show ?thesis by simp
qed

text \<open>
  The claim as stated has the \<open>.apk\<close> begin with the signature section of the keyless
  signer. On the staged workspace, without a signing key, the file is
  \<open><.PKGINFO>[DATA]\<close>: it does not begin with the signature \<open>{SIG}\<close> that the keyless
  signer of the system would give.
\<close>

theorem keyless_signature_counterexample:
  "SigningKey (Build ex_pc) = []
   \<and> snd (snd (EmitPackage ex_sys ex_pc ex_world)) = None
   \<and> EmitSignature ex_sys FulcioApkSigner ''<.PKGINFO>'' 0 = Inr ''{SIG}''
   \<and> files (fst (EmitPackage ex_sys ex_pc ex_world)) (Filename ex_pc) = Some ''<.PKGINFO>[DATA]''
   \<and> \<not> prefix ''{SIG}'' ''<.PKGINFO>[DATA]''"
  by code_simp

text \<open>
  C6, as amended. With \<open>dependency-log\<close> set and the walk of the shared-object scan
  finished without error: when the file \<open>{dependency-log}.{arch}\<close> cannot be created, the
  warning is logged; when it is created and the write of the log fails, the scan returns
  that error; when both succeed, the scan returns without error.
\<close>

theorem dependency_log_failures:
  fixes sys pc gen w
  defines "r \<equiv> run_walk sys pc (soWalkFn sys pc)
                 \<lparr>generated = gen, depends = Map.empty,
                  log = logger w @ [Printf ''scanning for shared object dependencies...'']\<rparr>"
  defines "data \<equiv> json_Marshal sys (depends (fst r)) @ [CHR 0x0A]"
  assumes "DependencyLog (Build pc) \<noteq> []" and "snd r = None"
  shows "(\<forall>err. os_Create sys (dependency_log_name pc) = Some err \<longrightarrow>
            Warnf (''Unable to open dependency log: '' @ Error_msg err)
              \<in> set (logger (fst (generateSharedObjectNameDeps sys pc gen w))))
       \<and> (\<forall>n err. os_Create sys (dependency_log_name pc) = None \<longrightarrow>
            file_Write sys (dependency_log_name pc) data = Some (n, err) \<longrightarrow>
            snd (snd (generateSharedObjectNameDeps sys pc gen w)) = Some err)
       \<and> (os_Create sys (dependency_log_name pc) = None \<longrightarrow>
            file_Write sys (dependency_log_name pc) data = None \<longrightarrow>
            snd (snd (generateSharedObjectNameDeps sys pc gen w)) = None)"
proof -
  let ?w1 = "w\<lparr>logger := log (fst r)\<rparr>"
  have g: "generateSharedObjectNameDeps sys pc gen w =
      (fst (writeDependencyLog sys pc (depends (fst r)) ?w1), generated (fst r),
       snd (writeDependencyLog sys pc (depends (fst r)) ?w1))"
    using generateSharedObjectNameDeps_log [OF assms(3) assms(4) [unfolded r_def]]
    unfolding r_def .
  show ?thesis
    using writeDependencyLog_create_fails [of sys pc _ "depends (fst r)" ?w1]
      writeDependencyLog_write [of sys pc "depends (fst r)" ?w1]
    by (auto simp: g data_def)
qed

theorem dependency_log_failures_witness:
  "DependencyLog (Build ex_pc_deplog) \<noteq> []
   \<and> os_Create ex_sys_create_fails (dependency_log_name ex_pc_deplog) = Some (Error ''permission denied'')
   \<and> Warnf ''Unable to open dependency log: permission denied''
       \<in> set (logger (fst (generateSharedObjectNameDeps ex_sys_create_fails ex_pc_deplog
                              no_Dependencies ex_world)))
   \<and> os_Create ex_sys_write_fails (dependency_log_name ex_pc_deplog) = None
   \<and> snd (snd (generateSharedObjectNameDeps ex_sys_write_fails ex_pc_deplog
                  no_Dependencies ex_world)) = Some (Error ''no space left on device'')"
proof -
  have d: "DependencyLog (Build ex_pc_deplog) \<noteq> []"
    by (simp add: ex_pc_deplog_def)
  have c1: "os_Create ex_sys_create_fails (dependency_log_name ex_pc_deplog)
      = Some (Error ''permission denied'')"
    by (simp add: ex_sys_create_fails_def)
  have c2: "os_Create ex_sys_write_fails (dependency_log_name ex_pc_deplog) = None"
    by (simp add: ex_sys_write_fails_def ex_sys_def)
  have w2: "file_Write ex_sys_write_fails (dependency_log_name ex_pc_deplog) data
      = Some (0, Error ''no space left on device'')" for data
    by (simp add: ex_sys_write_fails_def)
  have k1: "snd (run_walk ex_sys_create_fails ex_pc_deplog (soWalkFn ex_sys_create_fails ex_pc_deplog)
          \<lparr>generated = no_Dependencies, depends = Map.empty,
           log = logger ex_world @ [Printf ''scanning for shared object dependencies...'']\<rparr>) = None"
    by code_simp
  have k2: "snd (run_walk ex_sys_write_fails ex_pc_deplog (soWalkFn ex_sys_write_fails ex_pc_deplog)
          \<lparr>generated = no_Dependencies, depends = Map.empty,
           log = logger ex_world @ [Printf ''scanning for shared object dependencies...'']\<rparr>) = None"
    by code_simp
  from dependency_log_failures [OF d k1] c1
  have a: "Warnf ''Unable to open dependency log: permission denied''
       \<in> set (logger (fst (generateSharedObjectNameDeps ex_sys_create_fails ex_pc_deplog
                              no_Dependencies ex_world)))"
    by simp
  from dependency_log_failures [OF d k2] c2 w2
  have b: "snd (snd (generateSharedObjectNameDeps ex_sys_write_fails ex_pc_deplog
                  no_Dependencies ex_world)) = Some (Error ''no space left on device'')"
    by blast
  from d c1 a c2 b show ?thesis by blast
qed

text \<open>
  The claim as stated has the scan, and dependency generation, succeed when the write
  fails. On a system that cannot write, both return the error of the write.
\<close>

theorem dependency_log_write_failure_counterexample:
  "DependencyLog (Build ex_pc_deplog) = ''/tmp/deps''
   \<and> dependency_log_name ex_pc_deplog = ''/tmp/deps.x86_64''
   \<and> os_Create ex_sys_write_fails ''/tmp/deps.x86_64'' = None
   \<and> file_Write ex_sys_write_fails ''/tmp/deps.x86_64'' (''{}'' @ [CHR 0x0A])
       = Some (0, Error ''no space left on device'')
   \<and> snd (snd (generateSharedObjectNameDeps ex_sys_write_fails ex_pc_deplog no_Dependencies ex_world))
       = Some (Error ''no space left on device'')
   \<and> snd (snd (GenerateDependencies ex_sys_write_fails ex_pc_deplog ex_world))
       = Some (Error ''no space left on device'')"
  by code_simp

text \<open>
  C7, as amended. For a regular file with the \<open>0o555\<close> bits set, inside one of the
  directories \<open>lib\<close>, \<open>usr/lib\<close>, \<open>lib64\<close>, \<open>usr/lib64\<close>, that opens as an ELF file whose
  interpreter, imported libraries and \<open>DT_SONAME\<close> strings are read without error, and
  that has no interpreter or a base name beginning with \<open>libc\<close>, with \<open>no-provides\<close>
  unset: the walk function appends to provides, for each soname in order, the entry
  \<open>so:{soname}={libver}\<close>, where \<open>libver\<close> is the text of the soname between its first
  \<open>.so.\<close> and the next \<open>.so.\<close> (or its end), and \<open>0\<close> when \<open>.so.\<close> is absent.
\<close>

theorem soname_provides:
  assumes "walk_err e = None" and "d_Info e = Inr fi" and "IsRegular (fi_Mode fi)"
    and "Perm (fi_Mode fi) AND 0x16D = 0x16D"
    and "d \<in> set libDirs" and "prefix (d @ ''/'') (path e)"
    and "elf_Open sys (Join [WorkspaceSubdir pc, path e]) = Inr ef"
    and "findInterpreter ef = Inr interp"
    and "interp = [] \<or> HasPrefix (Base (path e)) ''libc''"
    and "ImportedLibraries ef = Inr libs"
    and "DynString ef DT_SONAME = Inr sonames"
    and "\<not> NoProvides (Options pc)"
  shows "\<exists>st'. soWalkFn sys pc e st = (st', None)
           \<and> Provides (generated st') =
               Provides (generated st)
                 @ map (\<lambda>soname. ''so:'' @ soname @ ''='' @ libver_between soname) sonames"
proof -
  have a: "allowedPrefix (path e) libDirs"
    using assms(5,6) by (rule allowedPrefix_dir)
  have "map soname_entry sonames
      = map (\<lambda>soname. ''so:'' @ soname @ ''='' @ libver_between soname) sonames"
    by (simp add: soname_entry_def libver_eq)
  with soExecutable_provides [OF assms(7-12) a, of st] soWalkFn_executable [OF assms(1-4), of sys pc st]
  show ?thesis by simp
qed

theorem soname_provides_witness:
  "prefix (''usr/lib'' @ ''/'') ''usr/lib/libfoo.so.2.1''
   \<and> DynString ex_libfoo DT_SONAME = Inr [''libfoo.so.2'']
   \<and> (\<exists>st'. soWalkFn ex_sys ex_pc (ex_entry ''usr/lib/libfoo.so.2.1'' 0x1ED) ex_scan = (st', None)
          \<and> Provides (generated st') = [''so:libfoo.so.2=2''])"
proof -
  let ?e = "ex_entry ''usr/lib/libfoo.so.2.1'' 0x1ED"
  have h1: "walk_err ?e = None" by (simp add: ex_entry_def)
  have h2: "d_Info ?e = Inr \<lparr>fi_Mode = 0x1ED, fi_Size = 100\<rparr>" by (simp add: ex_entry_def)
  have h3: "IsRegular (fi_Mode \<lparr>fi_Mode = 0x1ED, fi_Size = 100\<rparr>)"
    using ex_Perm_755 by simp
  have h4: "Perm (fi_Mode \<lparr>fi_Mode = 0x1ED, fi_Size = 100\<rparr>) AND 0x16D = 0x16D"
    using ex_Perm_755 by simp
  have h5: "''usr/lib'' \<in> set libDirs" by (simp add: libDirs_def)
  have h6: "prefix (''usr/lib'' @ ''/'') (path ?e)" by (simp add: ex_entry_def)
  have h7: "elf_Open ex_sys (Join [WorkspaceSubdir ex_pc, path ?e]) = Inr ex_libfoo"
    by (simp add: ex_entry_def ex_Join_libfoo ex_sys_def)
  have h8: "findInterpreter ex_libfoo = Inr []"
    by (simp add: findInterpreter_def ex_libfoo_def)
  have h9: "[] = [] \<or> HasPrefix (Base (path ?e)) ''libc''" by simp
  have h10: "ImportedLibraries ex_libfoo = Inr [''libc.musl-x86_64.so.1'']"
    by (simp add: ex_libfoo_def)
  have h11: "DynString ex_libfoo DT_SONAME = Inr [''libfoo.so.2'']"
    by (simp add: ex_libfoo_def)
  have h12: "\<not> NoProvides (Options ex_pc)" by (simp add: ex_pc_def)
  have v: "libver_between ''libfoo.so.2'' = ''2''" by code_simp
  have g: "Provides (generated ex_scan) = []" by (simp add: ex_scan_def no_Dependencies_def)
  from soname_provides [OF h1 h2 h3 h4 h5 h6 h7 h8 h9 h10 h11 h12, of ex_scan] v g
  have "\<exists>st'. soWalkFn ex_sys ex_pc ?e ex_scan = (st', None)
          \<and> Provides (generated st') = [''so:libfoo.so.2=2'']"
    by simp
  with h6 h11 show ?thesis by (simp add: ex_entry_def)
qed

text \<open>
  The claim as stated takes the part of the soname to the right of \<open>.so.\<close>. For the
  soname \<open>libfoo.so.1.so.2\<close> the source gives the version \<open>1\<close>; the part to the right
  of the first \<open>.so.\<close> is \<open>1.so.2\<close>, to the right of the last \<open>2\<close>.
\<close>

theorem soname_right_of_counterexample:
  "Provides (generated (fst (soWalkFn
       (ex_sys\<lparr>elf_Open := (\<lambda>p. Inr (ex_libfoo\<lparr>DynString := (\<lambda>tag. Inr [''libfoo.so.1.so.2''])\<rparr>))\<rparr>)
       ex_pc (ex_entry ''usr/lib/libfoo.so.2.1'' 0x1ED) ex_scan))) = [''so:libfoo.so.1.so.2=1'']
   \<and> libver_right_of_first ''libfoo.so.1.so.2'' = ''1.so.2''
   \<and> libver_right_of_last ''libfoo.so.1.so.2'' = ''2''"
  by code_simp

text \<open>
  C8, as amended. For a regular file with the \<open>0o555\<close> bits set that opens as an ELF
  file with a non-empty interpreter, with \<open>no-depends\<close> unset, the walk function appends
  to runtime the entry \<open>so:{basename(interpreter)}\<close> in which every occurrence of
  \<open>so:ld-musl\<close> is replaced by \<open>so:libc.musl\<close> (the entries of the imported libraries
  follow it). For a base name \<open>ld-musl*\<close> the entry begins with \<open>so:libc.musl\<close>; and
  when \<open>so:ld-musl\<close> occurs nowhere but at the head, the entry is the one obtained by
  replacing the prefix alone.
\<close>

theorem interpreter_runtime:
  assumes "walk_err e = None" and "d_Info e = Inr fi" and "IsRegular (fi_Mode fi)"
    and "Perm (fi_Mode fi) AND 0x16D = 0x16D"
    and "elf_Open sys (Join [WorkspaceSubdir pc, path e]) = Inr ef"
    and "findInterpreter ef = Inr interp"
    and "interp \<noteq> []" and "\<not> NoDepends (Options pc)"
  shows "(\<exists>st'. soWalkFn sys pc e st = (st', None)
            \<and> prefix (Runtime (generated st)
                        @ [ReplaceAll (''so:'' @ Base interp) ''so:ld-musl'' ''so:libc.musl''])
                (Runtime (generated st')))
       \<and> (\<forall>rest. Base interp = ''ld-musl'' @ rest \<longrightarrow>
            ReplaceAll (''so:'' @ Base interp) ''so:ld-musl'' ''so:libc.musl''
              = ''so:libc.musl'' @ ReplaceAll rest ''so:ld-musl'' ''so:libc.musl'')
       \<and> (\<not> sublist ''so:ld-musl'' (tl (''so:'' @ Base interp)) \<longrightarrow>
            ReplaceAll (''so:'' @ Base interp) ''so:ld-musl'' ''so:libc.musl''
              = interpName_prefix interp)"
  using soExecutable_interp [OF assms(5-8), of st] soWalkFn_executable [OF assms(1-4), of sys pc st]
    interpName_ld_musl [of interp] interpName_prefix_agree [of interp]
  by (simp add: interpName_def)

theorem interpreter_runtime_witness:
  "findInterpreter ex_app = Inr ''/lib/ld-musl-x86_64.so.1''
   \<and> Base ''/lib/ld-musl-x86_64.so.1'' = ''ld-musl'' @ ''-x86_64.so.1''
   \<and> (\<exists>st'. soWalkFn ex_sys ex_pc (ex_entry ''usr/bin/app'' 0x1ED) ex_scan = (st', None)
          \<and> prefix [''so:libc.musl-x86_64.so.1''] (Runtime (generated st')))
   \<and> interpName_prefix ''/lib/ld-musl-x86_64.so.1'' = ''so:libc.musl-x86_64.so.1''"
proof -
  let ?e = "ex_entry ''usr/bin/app'' 0x1ED"
  let ?i = "''/lib/ld-musl-x86_64.so.1''"
  have h1: "walk_err ?e = None" by (simp add: ex_entry_def)
  have h2: "d_Info ?e = Inr \<lparr>fi_Mode = 0x1ED, fi_Size = 100\<rparr>" by (simp add: ex_entry_def)
  have h3: "IsRegular (fi_Mode \<lparr>fi_Mode = 0x1ED, fi_Size = 100\<rparr>)"
    using ex_Perm_755 by simp
  have h4: "Perm (fi_Mode \<lparr>fi_Mode = 0x1ED, fi_Size = 100\<rparr>) AND 0x16D = 0x16D"
    using ex_Perm_755 by simp
  have h5: "elf_Open ex_sys (Join [WorkspaceSubdir ex_pc, path ?e]) = Inr ex_app"
    by (simp add: ex_entry_def ex_Join_app ex_sys_def)
  have h6: "findInterpreter ex_app = Inr ?i" by code_simp
  have h7: "?i \<noteq> []" by simp
  have h8: "\<not> NoDepends (Options ex_pc)" by (simp add: ex_pc_def)
  have b: "Base ?i = ''ld-musl'' @ ''-x86_64.so.1''" by code_simp
  have n: "\<not> sublist ''so:ld-musl'' (tl (''so:'' @ Base ?i))" by code_simp
  have v: "ReplaceAll (''so:'' @ Base ?i) ''so:ld-musl'' ''so:libc.musl'' = ''so:libc.musl-x86_64.so.1''"
    by code_simp
  have g: "Runtime (generated ex_scan) = []" by (simp add: ex_scan_def no_Dependencies_def)
  note t = interpreter_runtime [OF h1 h2 h3 h4 h5 h6 h7 h8, of ex_scan]
  from t have "\<exists>st'. soWalkFn ex_sys ex_pc ?e ex_scan = (st', None)
          \<and> prefix [''so:libc.musl-x86_64.so.1''] (Runtime (generated st'))"
    by (simp only: v g append_Nil)
  moreover from t n have "interpName_prefix ?i = ''so:libc.musl-x86_64.so.1''"
    by (simp only: v) simp
  ultimately show ?thesis using h6 b by blast
qed

text \<open>
  The claim as stated replaces the prefix only. For the interpreter
  \<open>/lib/xso:ld-musl.so.1\<close> the source gives \<open>so:xso:libc.musl.so.1\<close>, the replacement of
  the prefix \<open>so:xso:ld-musl.so.1\<close>.
\<close>

theorem interpreter_prefix_counterexample:
  "Runtime (generated (fst (soWalkFn
       (ex_sys\<lparr>elf_Open := (\<lambda>p. Inr (ex_app\<lparr>Progs :=
          [\<lparr>prog_Type = PT_INTERP, prog_ReadAll = Inr ''/lib/xso:ld-musl.so.1''\<rparr>]\<rparr>))\<rparr>)
       ex_pc (ex_entry ''usr/bin/app'' 0x1ED) ex_scan))) =
     [''so:xso:libc.musl.so.1'', ''so:libssl.so.3'', ''so:libfoo.so.2'']
   \<and> interpName_prefix ''/lib/xso:ld-musl.so.1'' = ''so:xso:ld-musl.so.1''"
  by code_simp

text \<open>
  C9. \<open>allowedPrefix\<close> holds exactly when one of the listed strings is a prefix of the
  path, whether or not the path lies inside that directory. In the second workspace
  \<open>binx/tool\<close> is inside none of \<open>bin\<close>, \<open>sbin\<close>, \<open>usr/bin\<close>, \<open>usr/sbin\<close> and
  \<open>libexec/libfoo.so.2.1\<close> inside none of \<open>lib\<close>, \<open>usr/lib\<close>, \<open>lib64\<close>, \<open>usr/lib64\<close>;
  dependency generation still produces the \<open>cmd:\<close> entry of the first and the \<open>so:\<close>
  entry of the second.
\<close>

theorem prefix_not_directory:
  "allowedPrefix p pfxs = list_ex (\<lambda>pfx. prefix pfx p) pfxs
   \<and> map path (WalkDir ex_sys_outside (WorkspaceSubdir ex_pc)) =
       [''.'', ''binx'', ''binx/tool'', ''libexec'', ''libexec/libfoo.so.2.1'']
   \<and> \<not> list_ex (\<lambda>d. prefix (d @ ''/'') ''binx/tool'') cmdPrefixes
   \<and> \<not> list_ex (\<lambda>d. prefix (d @ ''/'') ''libexec/libfoo.so.2.1'') libDirs
   \<and> snd (snd (GenerateDependencies ex_sys_outside ex_pc ex_world)) = None
   \<and> Provides (Dependencies (fst (snd (GenerateDependencies ex_sys_outside ex_pc ex_world)))) =
       [''cmd:tool=1.0-r0'', ''so:libfoo.so.2=2'']"
proof -
  have w: "map path (WalkDir ex_sys_outside (WorkspaceSubdir ex_pc)) =
       [''.'', ''binx'', ''binx/tool'', ''libexec'', ''libexec/libfoo.so.2.1'']"
    by code_simp
  show ?thesis
    using allowedPrefix_iff [of p pfxs] w ex_outside_dirs ex_outside_ok ex_outside_provides
    by blast
qed

text \<open>
  C10. With \<open>create-build-log\<close> unset, \<open>AppendBuildLog\<close> returns nil and leaves the world
  as it is: no file is created or written. And \<open>EmitPackage\<close> does, but for
  \<open>packages.log\<close>, what the run with the flag set does on the same inputs: the same
  error or success, the same job, the same content of every other file; the lines it
  logs are the first lines logged by the run with the flag set (which may add a warning
  when the append fails).
\<close>

theorem build_log_unset:
  assumes "\<not> CreateBuildLog (Build pc)"
  shows "AppendBuildLog sys pc dir w = (w, None)
       \<and> snd (snd (EmitPackage sys (with_CreateBuildLog True pc) w)) = snd (snd (EmitPackage sys pc w))
       \<and> fst (snd (EmitPackage sys (with_CreateBuildLog True pc) w))
           = with_CreateBuildLog True (fst (snd (EmitPackage sys pc w)))
       \<and> (\<forall>name. name \<noteq> ''packages.log'' \<longrightarrow>
            files (fst (EmitPackage sys (with_CreateBuildLog True pc) w)) name
              = files (fst (EmitPackage sys pc w)) name)
       \<and> prefix (logger (fst (EmitPackage sys pc w)))
           (logger (fst (EmitPackage sys (with_CreateBuildLog True pc) w)))"
proof -
  from assms have p: "with_CreateBuildLog False pc = pc"
    by (simp add: with_CreateBuildLog_same)
  from flag_EmitPackage [of sys pc w] AppendBuildLog_unset [OF assms, of sys dir w]
  show ?thesis by (simp add: p agree_but_build_log_def)
qed

theorem build_log_unset_witness:
  "\<not> CreateBuildLog (Build ex_pc)
   \<and> AppendBuildLog ex_sys ex_pc [] ex_world = (ex_world, None)
   \<and> files (fst (EmitPackage ex_sys ex_pc ex_world)) ''packages.log'' = None
   \<and> files (fst (EmitPackage ex_sys (with_CreateBuildLog True ex_pc) ex_world)) ''packages.log''
       = Some (''x86_64|foo|foo|1.0-r0'' @ [CHR 0x0A])
   \<and> files (fst (EmitPackage ex_sys (with_CreateBuildLog True ex_pc) ex_world)) (Filename ex_pc)
       = files (fst (EmitPackage ex_sys ex_pc ex_world)) (Filename ex_pc)
   \<and> snd (snd (EmitPackage ex_sys (with_CreateBuildLog True ex_pc) ex_world))
       = snd (snd (EmitPackage ex_sys ex_pc ex_world))"
proof -
  have h: "\<not> CreateBuildLog (Build ex_pc)" by (simp add: ex_pc_def)
  have l0: "files (fst (EmitPackage ex_sys ex_pc ex_world)) ''packages.log'' = None"
    by code_simp
  have l1: "files (fst (EmitPackage ex_sys (with_CreateBuildLog True ex_pc) ex_world)) ''packages.log''
       = Some (''x86_64|foo|foo|1.0-r0'' @ [CHR 0x0A])"
    by code_simp
  have n: "Filename ex_pc \<noteq> ''packages.log''" by (rule Filename_not_log)
  from build_log_unset [OF h, of ex_sys "[]" ex_world] n l0 l1 h show ?thesis by simp
qed

end
